theory Spec2Isabelle
  imports Complex_Main
begin

section \<open>Enumerations\<close>

text \<open>
  The enums of \<^verbatim>\<open>Introvert_rpg.py\<close> and \<^verbatim>\<open>npc_types.py\<close>. Two pairs of Python enums share a
  member name (\<^verbatim>\<open>NEUTRAL\<close>, \<^verbatim>\<open>LEISURE\<close>); the second of each pair carries a prefix here.
\<close>

datatype AttractionLevel = NEUTRAL | PLATONIC | ROMANTIC

datatype RiskLevel = SAFE | MODERATE | RISKY | VERY_RISKY

datatype ExchangeOutcome = VERY_POSITIVE | POSITIVE | OUTCOME_NEUTRAL | NEGATIVE | FAILED

datatype NPCRole = SERVICE_WORKER | PROFESSIONAL | SOCIAL | STRANGER | LEISURE | NEIGHBOR | REGULAR

datatype PersonalityArchetype = EXTROVERT | INTROVERT | SKEPTIC | ENTHUSIAST | BALANCED

datatype SocialContext = TASK_FOCUSED | CONTEXT_LEISURE | TRAPPED | WORKING | SOCIALIZING

section \<open>The random source\<close>

text \<open>
  Python's module-level generator is a hidden state that every \<^verbatim>\<open>random.*\<close> call advances.
  Here it is an explicit infinite sequence of raw draws, passed in and returned. A call that
  raises is the left injection. Python floats are modelled as exact reals throughout.
\<close>

datatype error = ValueError | IndexError

type_synonym rng = "nat \<Rightarrow> nat"

definition next_raw :: "rng \<Rightarrow> nat \<times> rng" where
  "next_raw g = (g 0, \<lambda>i. g (Suc i))"

definition ret :: "'a \<Rightarrow> rng \<Rightarrow> error + ('a \<times> rng)" where
  "ret x g = Inr (x, g)"

definition rng_bind ::
  "(rng \<Rightarrow> error + ('a \<times> rng)) \<Rightarrow> ('a \<Rightarrow> rng \<Rightarrow> error + ('b \<times> rng)) \<Rightarrow> rng \<Rightarrow> error + ('b \<times> rng)" where
  "rng_bind m f g = (case m g of Inl e \<Rightarrow> Inl e | Inr (x, g') \<Rightarrow> f x g')"

definition result_of :: "error + ('a \<times> rng) \<Rightarrow> error + 'a" where
  "result_of r = (case r of Inl e \<Rightarrow> Inl e | Inr (x, g) \<Rightarrow> Inr x)"

text \<open>
  \<^verbatim>\<open>random.randint(a, b)\<close> is \<^verbatim>\<open>randrange(a, b + 1)\<close>: it raises \<^verbatim>\<open>ValueError\<close> on an empty
  range (\<open>b < a\<close>) before drawing anything, and otherwise returns an integer of \<open>[a, b]\<close>.
\<close>

definition randint :: "int \<Rightarrow> int \<Rightarrow> rng \<Rightarrow> error + (int \<times> rng)" where
  "randint a b g =
     (if b < a then Inl ValueError
      else case next_raw g of (d, g') \<Rightarrow> Inr (a + int d mod (b - a + 1), g'))"

text \<open>\<^verbatim>\<open>random.random()\<close>: a 53-bit integer over \<open>2^53\<close>, a value of \<open>[0, 1)\<close>.\<close>

definition random_unit :: "rng \<Rightarrow> error + (real \<times> rng)" where
  "random_unit g = (case next_raw g of (d, g') \<Rightarrow> Inr (real (d mod 2 ^ 53) / 2 ^ 53, g'))"

text \<open>\<^verbatim>\<open>random.uniform(a, b)\<close> is \<^verbatim>\<open>a + (b - a) * random()\<close>, whichever of the two is larger.\<close>

definition uniform :: "real \<Rightarrow> real \<Rightarrow> rng \<Rightarrow> error + (real \<times> rng)" where
  "uniform a b = rng_bind random_unit (\<lambda>u. ret (a + (b - a) * u))"

text \<open>\<^verbatim>\<open>random.choice(seq)\<close> raises \<^verbatim>\<open>IndexError\<close> on an empty sequence.\<close>

definition choice :: "'a list \<Rightarrow> rng \<Rightarrow> error + ('a \<times> rng)" where
  "choice xs g =
     (if xs = [] then Inl IndexError
      else case next_raw g of (d, g') \<Rightarrow> Inr (xs ! (d mod length xs), g'))"

section \<open>Strings\<close>

text \<open>
  \<^verbatim>\<open>str.lower()\<close> on ASCII text, and the substring test \<^verbatim>\<open>needle in haystack\<close>.
\<close>

definition lower_char :: "char \<Rightarrow> char" where
  "lower_char c =
     (let n = (of_char c :: nat) in if 65 \<le> n \<and> n \<le> 90 then char_of (n + 32) else c)"

definition lower :: "string \<Rightarrow> string" where
  "lower s = map lower_char s"

fun starts_with :: "string \<Rightarrow> string \<Rightarrow> bool" where
  "starts_with [] ys = True"
| "starts_with (x # xs) [] = False"
| "starts_with (x # xs) (y # ys) = (x = y \<and> starts_with xs ys)"

fun py_in :: "string \<Rightarrow> string \<Rightarrow> bool" where
  "py_in xs [] = (xs = [])"
| "py_in xs (y # ys) = (starts_with xs (y # ys) \<or> py_in xs ys)"

text \<open>Truthiness of an \<^verbatim>\<open>Optional[str]\<close>: neither \<^verbatim>\<open>None\<close> nor empty.\<close>

definition truthy :: "string option \<Rightarrow> bool" where
  "truthy s = (case s of None \<Rightarrow> False | Some t \<Rightarrow> t \<noteq> [])"

section \<open>The modifier model (npc\_types.py)\<close>

record NPCTypeModifiers =
  base_receptiveness :: real
  base_bond :: real
  conversation_patience :: real
  time_pressure :: bool
  domain_boost :: real
  battery_drain_multiplier :: real
  carries_conversation :: bool
  comfortable_silence :: bool
  critical_of_flirting :: bool
  enthusiastic_about_interests :: bool
  failure_tolerance_modifier :: int
  exits_gracefully :: bool

text \<open>The dataclass defaults: \<^verbatim>\<open>NPCTypeModifiers()\<close>.\<close>

definition default_modifiers :: NPCTypeModifiers where
  "default_modifiers =
     \<lparr> base_receptiveness = 2, base_bond = 0, conversation_patience = 1,
       time_pressure = False, domain_boost = 0, battery_drain_multiplier = 1,
       carries_conversation = False, comfortable_silence = False,
       critical_of_flirting = False, enthusiastic_about_interests = False,
       failure_tolerance_modifier = 0, exits_gracefully = True \<rparr>"

fun get_role_modifiers :: "NPCRole \<Rightarrow> NPCTypeModifiers" where
  "get_role_modifiers SERVICE_WORKER =
     default_modifiers\<lparr> base_receptiveness := 15 / 10, conversation_patience := 7 / 10,
       time_pressure := True, battery_drain_multiplier := 12 / 10,
       failure_tolerance_modifier := - 1, exits_gracefully := True \<rparr>"
| "get_role_modifiers PROFESSIONAL =
     default_modifiers\<lparr> base_receptiveness := 2, conversation_patience := 1,
       domain_boost := 2 / 10, battery_drain_multiplier := 11 / 10,
       failure_tolerance_modifier := 0, exits_gracefully := True \<rparr>"
| "get_role_modifiers SOCIAL =
     default_modifiers\<lparr> base_receptiveness := 25 / 10, conversation_patience := 12 / 10,
       time_pressure := False, battery_drain_multiplier := 13 / 10,
       failure_tolerance_modifier := 1, exits_gracefully := True \<rparr>"
| "get_role_modifiers STRANGER =
     default_modifiers\<lparr> base_receptiveness := 1, conversation_patience := 6 / 10,
       time_pressure := True, battery_drain_multiplier := 14 / 10,
       failure_tolerance_modifier := - 1, exits_gracefully := False \<rparr>"
| "get_role_modifiers LEISURE =
     default_modifiers\<lparr> base_receptiveness := 22 / 10, conversation_patience := 11 / 10,
       time_pressure := False, battery_drain_multiplier := 9 / 10,
       failure_tolerance_modifier := 1, exits_gracefully := True \<rparr>"
| "get_role_modifiers NEIGHBOR =
     default_modifiers\<lparr> base_receptiveness := 2, base_bond := 25 / 100,
       conversation_patience := 1, time_pressure := False,
       battery_drain_multiplier := 9 / 10, failure_tolerance_modifier := 1,
       exits_gracefully := True \<rparr>"
| "get_role_modifiers REGULAR =
     default_modifiers\<lparr> base_receptiveness := 18 / 10, base_bond := 5 / 10,
       conversation_patience := 9 / 10, time_pressure := False,
       battery_drain_multiplier := 1, failure_tolerance_modifier := 0,
       exits_gracefully := True \<rparr>"

fun get_archetype_modifiers :: "PersonalityArchetype \<Rightarrow> NPCTypeModifiers" where
  "get_archetype_modifiers EXTROVERT =
     default_modifiers\<lparr> base_receptiveness := 25 / 10, conversation_patience := 13 / 10,
       carries_conversation := True, battery_drain_multiplier := 14 / 10,
       failure_tolerance_modifier := 2, exits_gracefully := True \<rparr>"
| "get_archetype_modifiers INTROVERT =
     default_modifiers\<lparr> base_receptiveness := 18 / 10, conversation_patience := 1,
       comfortable_silence := True, battery_drain_multiplier := 7 / 10,
       failure_tolerance_modifier := 0, exits_gracefully := True \<rparr>"
| "get_archetype_modifiers SKEPTIC =
     default_modifiers\<lparr> base_receptiveness := 13 / 10, conversation_patience := 8 / 10,
       critical_of_flirting := True, battery_drain_multiplier := 12 / 10,
       failure_tolerance_modifier := - 1, exits_gracefully := False \<rparr>"
| "get_archetype_modifiers ENTHUSIAST =
     default_modifiers\<lparr> base_receptiveness := 23 / 10, conversation_patience := 12 / 10,
       domain_boost := 3 / 10, enthusiastic_about_interests := True,
       battery_drain_multiplier := 13 / 10, failure_tolerance_modifier := 1,
       exits_gracefully := True \<rparr>"
| "get_archetype_modifiers BALANCED =
     default_modifiers\<lparr> base_receptiveness := 2, conversation_patience := 1,
       battery_drain_multiplier := 1, failure_tolerance_modifier := 0,
       exits_gracefully := True \<rparr>"

text \<open>
  \<^verbatim>\<open>get_context_modifiers\<close> builds its whole dictionary on every call, so the three
  \<^verbatim>\<open>random.choice\<close> calls of the \<^verbatim>\<open>TRAPPED\<close> entry run whichever context is asked for.
\<close>

definition get_context_modifiers :: "SocialContext \<Rightarrow> rng \<Rightarrow> error + (NPCTypeModifiers \<times> rng)" where
  "get_context_modifiers context =
     rng_bind (choice [15 / 10, 25 / 10]) (\<lambda>trapped_receptiveness.
     rng_bind (choice [7 / 10, 11 / 10]) (\<lambda>trapped_patience.
     rng_bind (choice [- 1, 1]) (\<lambda>trapped_tolerance.
     ret (case context of
         TASK_FOCUSED \<Rightarrow>
           default_modifiers\<lparr> base_receptiveness := 17 / 10, conversation_patience := 8 / 10,
             time_pressure := True, battery_drain_multiplier := 11 / 10,
             failure_tolerance_modifier := - 1, exits_gracefully := True \<rparr>
       | CONTEXT_LEISURE \<Rightarrow>
           default_modifiers\<lparr> base_receptiveness := 23 / 10, conversation_patience := 12 / 10,
             time_pressure := False, battery_drain_multiplier := 9 / 10,
             failure_tolerance_modifier := 1, exits_gracefully := True \<rparr>
       | TRAPPED \<Rightarrow>
           default_modifiers\<lparr> base_receptiveness := trapped_receptiveness,
             conversation_patience := trapped_patience, time_pressure := False,
             battery_drain_multiplier := 1, failure_tolerance_modifier := trapped_tolerance,
             exits_gracefully := True \<rparr>
       | WORKING \<Rightarrow>
           default_modifiers\<lparr> base_receptiveness := 15 / 10, conversation_patience := 7 / 10,
             time_pressure := True, battery_drain_multiplier := 12 / 10,
             failure_tolerance_modifier := - 1, exits_gracefully := True \<rparr>
       | SOCIALIZING \<Rightarrow>
           default_modifiers\<lparr> base_receptiveness := 25 / 10, conversation_patience := 13 / 10,
             time_pressure := False, battery_drain_multiplier := 12 / 10,
             failure_tolerance_modifier := 2, exits_gracefully := True \<rparr>))))"

definition combine_modifiers ::
  "NPCTypeModifiers \<Rightarrow> NPCTypeModifiers \<Rightarrow> NPCTypeModifiers \<Rightarrow> NPCTypeModifiers" where
  "combine_modifiers role_mods archetype_mods context_mods =
     default_modifiers\<lparr>
       base_receptiveness :=
         (base_receptiveness role_mods + base_receptiveness archetype_mods
            + base_receptiveness context_mods) / 3,
       base_bond :=
         max (max (base_bond role_mods) (base_bond archetype_mods)) (base_bond context_mods),
       conversation_patience :=
         conversation_patience role_mods * conversation_patience archetype_mods
           * conversation_patience context_mods,
       time_pressure :=
         ((time_pressure role_mods \<or> time_pressure archetype_mods)
            \<or> time_pressure context_mods),
       domain_boost :=
         domain_boost role_mods + domain_boost archetype_mods + domain_boost context_mods,
       battery_drain_multiplier :=
         battery_drain_multiplier role_mods * battery_drain_multiplier archetype_mods
           * battery_drain_multiplier context_mods,
       carries_conversation :=
         (carries_conversation role_mods \<or> carries_conversation archetype_mods),
       comfortable_silence :=
         (comfortable_silence role_mods \<or> comfortable_silence archetype_mods),
       critical_of_flirting :=
         (critical_of_flirting role_mods \<or> critical_of_flirting archetype_mods),
       enthusiastic_about_interests :=
         (enthusiastic_about_interests role_mods \<or> enthusiastic_about_interests archetype_mods),
       failure_tolerance_modifier :=
         failure_tolerance_modifier role_mods + failure_tolerance_modifier archetype_mods
           + failure_tolerance_modifier context_mods,
       exits_gracefully :=
         ((exits_gracefully role_mods \<and> exits_gracefully archetype_mods)
            \<and> exits_gracefully context_mods) \<rparr>"

definition adjust_failure_tolerance :: "int \<Rightarrow> NPCTypeModifiers \<Rightarrow> int" where
  "adjust_failure_tolerance base_tolerance modifiers =
     max 0 (base_tolerance + failure_tolerance_modifier modifiers)"

text \<open>Python's \<^verbatim>\<open>int(x)\<close> on a float truncates toward zero.\<close>

definition py_int :: "real \<Rightarrow> int" where
  "py_int x = (if 0 \<le> x then \<lfloor>x\<rfloor> else \<lceil>x\<rceil>)"

definition adjust_battery_drain :: "int \<Rightarrow> NPCTypeModifiers \<Rightarrow> int" where
  "adjust_battery_drain base_drain modifiers =
     py_int (real_of_int base_drain * battery_drain_multiplier modifiers)"

section \<open>The data model (Introvert\_rpg.py)\<close>

record CharacterStats =
  eloquence :: int
  emotional_intelligence :: int
  body_language_perception :: int
  persuasion :: int
  acting :: int
  intuition :: int
  social_battery :: int
  emotional_bandwidth :: int
  profession :: string
  hobbies :: "string list"
  location :: string

record NPCState =
  name :: string
  description :: string
  age_range :: string
  appearance :: string
  personality :: string
  background :: string
  interests :: "string list"
  role :: "NPCRole option"
  archetype :: "PersonalityArchetype option"
  social_context :: "SocialContext option"
  type_modifiers :: "NPCTypeModifiers option"
  receptiveness :: real
  bond :: real
  consecutive_positives :: int
  attraction_level :: AttractionLevel
  base_flirt_success :: int
  flirt_uses :: int
  failures_this_interaction :: int
  disinterest_signals :: int

text \<open>The field \<^verbatim>\<open>text\<close> of the dataclass is \<open>choice_text\<close> here.\<close>

record DialogueChoice =
  choice_text :: string
  risk_level :: RiskLevel
  base_success_rate :: int
  requires_stats :: "(string \<times> int) list"
  is_flirt :: bool
  is_disinterest_bridge :: bool
  topic :: "string option"

text \<open>The field \<^verbatim>\<open>location\<close> of the dataclass is \<open>interaction_location\<close> here.\<close>

record InteractionContext =
  npc :: NPCState
  player :: CharacterStats
  interaction_location :: string
  time_of_day :: string
  momentum_bonus :: int
  domain_active :: "string option"

section \<open>Character and NPC methods\<close>

definition is_domain :: "CharacterStats \<Rightarrow> string \<Rightarrow> bool" where
  "is_domain self topic0 =
     (py_in (lower topic0) (lower (profession self))
      \<or> list_ex (\<lambda>hobby. py_in (lower topic0) (lower hobby)) (hobbies self))"

text \<open>
  The loop of \<^verbatim>\<open>get_domain_bonus\<close> over the four stat names: a stat of at most 1 draws
  \<^verbatim>\<open>random.randint(1, 3)\<close>. The dictionary is an association list in insertion order.
\<close>

fun roll_bonuses :: "(string \<times> int) list \<Rightarrow> rng \<Rightarrow> error + ((string \<times> int) list \<times> rng)" where
  "roll_bonuses [] g = ret [] g"
| "roll_bonuses ((stat_name, stat_value) # rest) g =
     (if stat_value \<le> 1
      then rng_bind (randint 1 3)
             (\<lambda>bonus. rng_bind (roll_bonuses rest)
               (\<lambda>bonuses. ret ((stat_name, bonus) # bonuses))) g
      else roll_bonuses rest g)"

definition get_domain_bonus ::
  "CharacterStats \<Rightarrow> string \<Rightarrow> rng \<Rightarrow> error + ((string \<times> int) list \<times> rng)" where
  "get_domain_bonus self topic0 =
     (if \<not> is_domain self topic0 then ret []
      else roll_bonuses
             [(''eloquence'', eloquence self), (''acting'', acting self),
              (''persuasion'', persuasion self), (''intuition'', intuition self)])"

text \<open>The bond-tier base of \<^verbatim>\<open>can_tolerate_failure\<close>, before the type modifier.\<close>

definition base_tolerance :: "NPCState \<Rightarrow> int" where
  "base_tolerance self =
     (if bond self < 1 then 1
      else if bond self < 2 then 2
      else if bond self < 3 then 2
      else if bond self < 4 then 3
      else 4)"

definition failure_tolerance :: "NPCState \<Rightarrow> int" where
  "failure_tolerance self =
     (case type_modifiers self of
        None \<Rightarrow> base_tolerance self
      | Some mods \<Rightarrow> adjust_failure_tolerance (base_tolerance self) mods)"

definition can_tolerate_failure :: "NPCState \<Rightarrow> bool" where
  "can_tolerate_failure self = (failures_this_interaction self < failure_tolerance self)"

definition get_flirt_success_rate :: "NPCState \<Rightarrow> int" where
  "get_flirt_success_rate self =
     (let base = base_flirt_success self;
          degradation = flirt_uses self * 20;
          restoration =
            (if bond self < 1 then consecutive_positives self * 2
             else if bond self < 2 then consecutive_positives self * 3
             else if bond self < 3 then consecutive_positives self * 4
             else if bond self < 4 then consecutive_positives self * 5
             else consecutive_positives self * 6);
          rate = base - degradation + restoration
      in max 10 (min 100 rate))"

fun get_momentum_cap :: "RiskLevel \<Rightarrow> int" where
  "get_momentum_cap SAFE = 10"
| "get_momentum_cap MODERATE = 12"
| "get_momentum_cap RISKY = 14"
| "get_momentum_cap VERY_RISKY = 16"

section \<open>Dialogue resolution\<close>

text \<open>
  \<^verbatim>\<open>resolve_choice\<close>, lines 523--528: the domain bonus, zero when the guard
  \<^verbatim>\<open>choice.topic and context.domain_active\<close> fails.
\<close>

definition domain_bonus_points ::
  "DialogueChoice \<Rightarrow> InteractionContext \<Rightarrow> rng \<Rightarrow> error + (int \<times> rng)" where
  "domain_bonus_points choice0 context =
     (case topic choice0 of
        None \<Rightarrow> ret 0
      | Some t \<Rightarrow>
          if t \<noteq> [] \<and> truthy (domain_active context)
          then rng_bind (get_domain_bonus (player context) t)
                 (\<lambda>bonuses. ret (sum_list (map snd bonuses) * 2))
          else ret 0)"

text \<open>\<^verbatim>\<open>resolve_choice\<close>, lines 515--533: the success rate.\<close>

definition success_rate_of ::
  "DialogueChoice \<Rightarrow> InteractionContext \<Rightarrow> rng \<Rightarrow> error + (int \<times> rng)" where
  "success_rate_of choice0 context =
     (let success_rate = base_success_rate choice0;
          momentum_cap = get_momentum_cap (risk_level choice0);
          actual_momentum = min (momentum_bonus context) momentum_cap;
          success_rate = success_rate + actual_momentum
      in rng_bind (domain_bonus_points choice0 context) (\<lambda>boost.
         let success_rate = success_rate + boost
         in ret (if is_flirt choice0 \<and> attraction_level (npc context) = ROMANTIC
                 then get_flirt_success_rate (npc context)
                 else success_rate)))"

text \<open>\<^verbatim>\<open>resolve_choice\<close>, lines 535--537: the roll and the verdict.\<close>

definition roll_for_success :: "int \<Rightarrow> rng \<Rightarrow> error + ((int \<times> bool) \<times> rng)" where
  "roll_for_success success_rate =
     rng_bind (randint 1 100) (\<lambda>roll. ret (roll, roll \<le> success_rate))"

definition determine_outcome ::
  "DialogueChoice \<Rightarrow> bool \<Rightarrow> InteractionContext \<Rightarrow> rng \<Rightarrow> error + (ExchangeOutcome \<times> rng)" where
  "determine_outcome choice0 success context =
     (if \<not> success then ret FAILED
      else if risk_level choice0 = VERY_RISKY \<and> 4 \<le> bond (npc context) then ret VERY_POSITIVE
      else if risk_level choice0 = RISKY \<or> risk_level choice0 = VERY_RISKY
        then rng_bind random_unit (\<lambda>u. ret (if 1 / 2 < u then VERY_POSITIVE else POSITIVE))
      else if risk_level choice0 = MODERATE then ret POSITIVE
      else rng_bind random_unit (\<lambda>u. ret (if 3 / 10 < u then POSITIVE else OUTCOME_NEUTRAL)))"

section \<open>Applying an outcome\<close>

text \<open>
  The three \<^verbatim>\<open>battery_changes\<close> dictionaries. A dictionary display evaluates every entry, in
  order, whichever key is read afterwards.
\<close>

definition outcome_table :: "int \<Rightarrow> int \<Rightarrow> int \<Rightarrow> int \<Rightarrow> int \<Rightarrow> ExchangeOutcome \<Rightarrow> int" where
  "outcome_table vp p n ng f outcome =
     (case outcome of VERY_POSITIVE \<Rightarrow> vp | POSITIVE \<Rightarrow> p | OUTCOME_NEUTRAL \<Rightarrow> n
        | NEGATIVE \<Rightarrow> ng | FAILED \<Rightarrow> f)"

fun battery_changes :: "AttractionLevel \<Rightarrow> rng \<Rightarrow> error + ((ExchangeOutcome \<Rightarrow> int) \<times> rng)" where
  "battery_changes ROMANTIC g =
     rng_bind (randint 2 3) (\<lambda>vp.
     rng_bind (randint 1 2) (\<lambda>p.
     rng_bind (randint (- 3) (- 4)) (\<lambda>n.
     rng_bind (randint (- 8) (- 10)) (\<lambda>ng.
     rng_bind (randint 18 20) (\<lambda>f.
     ret (outcome_table vp p n ng (- (f + 4)))))))) g"
| "battery_changes PLATONIC g =
     rng_bind (randint (- 4) (- 5)) (\<lambda>n.
     rng_bind (randint (- 7) (- 9)) (\<lambda>ng.
     rng_bind (randint 14 16) (\<lambda>f.
     ret (outcome_table 1 (- 1) n ng (- (f + 4)))))) g"
| "battery_changes NEUTRAL g =
     rng_bind (randint (- 5) (- 6)) (\<lambda>n.
     rng_bind (randint (- 6) (- 8)) (\<lambda>ng.
     rng_bind (randint 15 17) (\<lambda>f.
     ret (outcome_table 0 (- 2) n ng (- (f + 4)))))) g"

text \<open>Lines 633--646: add the change, replace it by the adjusted one, clamp.\<close>

definition apply_battery :: "NPCState \<Rightarrow> CharacterStats \<Rightarrow> int \<Rightarrow> CharacterStats" where
  "apply_battery npc0 player0 base_change =
     (let player1 = player0\<lparr> social_battery := social_battery player0 + base_change \<rparr>;
          player2 =
            (case type_modifiers npc0 of
               None \<Rightarrow> player1
             | Some mods \<Rightarrow>
                 let adjusted_change = adjust_battery_drain base_change mods;
                     player1' = player1\<lparr> social_battery := social_battery player1 - base_change \<rparr>
                 in player1'\<lparr> social_battery := social_battery player1' + adjusted_change \<rparr>)
      in player2\<lparr> social_battery := max (- 50) (min 50 (social_battery player2)) \<rparr>)"

fun approach_costs :: "AttractionLevel \<Rightarrow> int" where
  "approach_costs ROMANTIC = - 7"
| "approach_costs PLATONIC = - 5"
| "approach_costs NEUTRAL = - 3"

fun bandwidth_changes :: "AttractionLevel \<Rightarrow> rng \<Rightarrow> error + ((ExchangeOutcome \<Rightarrow> int) \<times> rng)" where
  "bandwidth_changes ROMANTIC g =
     rng_bind (randint 3 5) (\<lambda>vp.
     rng_bind (randint 1 2) (\<lambda>p.
     rng_bind (randint (- 4) (- 5)) (\<lambda>n.
     rng_bind (randint (- 8) (- 10)) (\<lambda>ng.
     rng_bind (randint 18 26) (\<lambda>f.
     ret (outcome_table vp p n ng (- f))))))) g"
| "bandwidth_changes PLATONIC g =
     rng_bind (randint 1 2) (\<lambda>vp.
     rng_bind (randint (- 6) (- 7)) (\<lambda>n.
     rng_bind (randint (- 7) (- 9)) (\<lambda>ng.
     rng_bind (randint 10 13) (\<lambda>f.
     ret (outcome_table vp 0 n ng (- (f + 3))))))) g"
| "bandwidth_changes NEUTRAL g =
     rng_bind (randint (- 7) (- 8)) (\<lambda>n.
     rng_bind (randint (- 6) (- 8)) (\<lambda>ng.
     rng_bind (randint 9 12) (\<lambda>f.
     ret (outcome_table 0 (- 2) n ng (- (f + 3)))))) g"

text \<open>Lines 652--693: approach cost, exchange cost, rejection sting, clamp.\<close>

definition apply_bandwidth ::
  "NPCState \<Rightarrow> DialogueChoice \<Rightarrow> bool \<Rightarrow> CharacterStats \<Rightarrow> int \<Rightarrow> CharacterStats" where
  "apply_bandwidth npc0 choice0 success player0 change =
     (let player1 =
            (if bond npc0 = 0
             then player0\<lparr> emotional_bandwidth :=
                    emotional_bandwidth player0 + approach_costs (attraction_level npc0) \<rparr>
             else player0);
          player2 = player1\<lparr> emotional_bandwidth := emotional_bandwidth player1 + change \<rparr>;
          player3 =
            (if is_flirt choice0 \<and> \<not> success
             then player2\<lparr> emotional_bandwidth := emotional_bandwidth player2 - 5 \<rparr>
             else player2)
      in player3\<lparr> emotional_bandwidth := max 0 (min 100 (emotional_bandwidth player3)) \<rparr>)"

text \<open>
  Lines 699--721: only the branch taken draws; \<^verbatim>\<open>NEGATIVE\<close> matches no branch and leaves the
  field as it is.
\<close>

fun receptiveness_delta :: "ExchangeOutcome \<Rightarrow> rng \<Rightarrow> error + (real \<times> rng)" where
  "receptiveness_delta VERY_POSITIVE g = uniform (75 / 100) 1 g"
| "receptiveness_delta POSITIVE g = uniform (25 / 100) (5 / 10) g"
| "receptiveness_delta OUTCOME_NEUTRAL g = uniform (- (25 / 100)) 0 g"
| "receptiveness_delta FAILED g = uniform (- (5 / 10)) (- 1) g"
| "receptiveness_delta NEGATIVE g = ret 0 g"

fun bond_delta :: "ExchangeOutcome \<Rightarrow> rng \<Rightarrow> error + (real \<times> rng)" where
  "bond_delta VERY_POSITIVE g = uniform (75 / 100) 1 g"
| "bond_delta POSITIVE g = uniform (25 / 100) (5 / 10) g"
| "bond_delta OUTCOME_NEUTRAL g = uniform (- (25 / 100)) 0 g"
| "bond_delta FAILED g = uniform (- (25 / 100)) (- (5 / 10)) g"
| "bond_delta NEGATIVE g = ret 0 g"

text \<open>Lines 723--737: momentum, failure and flirt tracking.\<close>

definition track_counters ::
  "ExchangeOutcome \<Rightarrow> DialogueChoice \<Rightarrow> NPCState \<Rightarrow> NPCState \<times> int" where
  "track_counters outcome choice0 npc0 =
     (let (npc1, momentum) =
            (if outcome = VERY_POSITIVE \<or> outcome = POSITIVE
             then (npc0\<lparr> consecutive_positives := consecutive_positives npc0 + 1 \<rparr>,
                   (consecutive_positives npc0 + 1) * 2)
             else (npc0\<lparr> consecutive_positives := 0 \<rparr>, 0));
          npc2 =
            (if outcome = FAILED
             then npc1\<lparr> failures_this_interaction := failures_this_interaction npc1 + 1 \<rparr>
             else npc1);
          npc3 = (if is_flirt choice0 then npc2\<lparr> flirt_uses := flirt_uses npc2 + 1 \<rparr> else npc2)
      in (npc3, momentum))"

definition apply_outcome ::
  "ExchangeOutcome \<Rightarrow> DialogueChoice \<Rightarrow> InteractionContext \<Rightarrow> bool \<Rightarrow> rng
     \<Rightarrow> error + (InteractionContext \<times> rng)" where
  "apply_outcome outcome choice0 context success =
     (let npc0 = npc context; player0 = player context; attraction = attraction_level npc0
      in rng_bind (battery_changes attraction) (\<lambda>battery.
         let player1 = apply_battery npc0 player0 (battery outcome)
         in rng_bind (bandwidth_changes attraction) (\<lambda>bandwidth.
         let player2 = apply_bandwidth npc0 choice0 success player1 (bandwidth outcome)
         in rng_bind (receptiveness_delta outcome) (\<lambda>dr.
         let npc1 = npc0\<lparr> receptiveness := max 0 (min 10 (receptiveness npc0 + dr)) \<rparr>
         in rng_bind (bond_delta outcome) (\<lambda>db.
         let npc2 = npc1\<lparr> bond := max 0 (min 10 (bond npc1 + db)) \<rparr>;
             (npc3, momentum) = track_counters outcome choice0 npc2
         in ret (context\<lparr> npc := npc3, player := player2, momentum_bonus := momentum \<rparr>))))))"

text \<open>
  \<^verbatim>\<open>_generate_npc_response\<close> writes the player's line, the risk tier, the words
  \<^verbatim>\<open>SUCCESS\<close> or \<^verbatim>\<open>FAILURE\<close> and the NPC's name, personality, receptiveness, bond and
  attraction level into a prompt, and sends it to the text-generation service. The request is
  the record of the values written; the service is a function from requests to replies.
\<close>

record NPCResponseRequest =
  player_said :: string
  choice_risk :: RiskLevel
  outcome_success :: bool
  npc_name :: string
  npc_personality :: string
  current_receptiveness :: real
  current_bond :: real
  npc_attraction :: AttractionLevel

definition npc_response_request ::
  "DialogueChoice \<Rightarrow> InteractionContext \<Rightarrow> bool \<Rightarrow> NPCResponseRequest" where
  "npc_response_request choice0 context success =
     \<lparr> player_said = choice_text choice0, choice_risk = risk_level choice0,
       outcome_success = success, npc_name = name (npc context),
       npc_personality = personality (npc context),
       current_receptiveness = receptiveness (npc context), current_bond = bond (npc context),
       npc_attraction = attraction_level (npc context) \<rparr>"

text \<open>
  \<^verbatim>\<open>resolve_choice\<close>. The reply is requested between the roll and the outcome
  classification and reads no random draw. A request that has been sent stays sent when a
  later step raises, so the result is the list of requests sent to the service, in order,
  together with what the call returns or raises.
\<close>

definition resolve_choice ::
  "(NPCResponseRequest \<Rightarrow> string) \<Rightarrow> DialogueChoice \<Rightarrow> InteractionContext \<Rightarrow> rng
     \<Rightarrow> NPCResponseRequest list
         \<times> (error + ((bool \<times> ExchangeOutcome \<times> string \<times> InteractionContext) \<times> rng))" where
  "resolve_choice service choice0 context g =
     (case success_rate_of choice0 context g of
        Inl e \<Rightarrow> ([], Inl e)
      | Inr (success_rate, g1) \<Rightarrow>
          (case roll_for_success success_rate g1 of
             Inl e \<Rightarrow> ([], Inl e)
           | Inr ((roll, success), g2) \<Rightarrow>
               let request = npc_response_request choice0 context success;
                   response_text = service request
               in ([request],
                   rng_bind (determine_outcome choice0 success context) (\<lambda>outcome.
                   rng_bind (apply_outcome outcome choice0 context success) (\<lambda>context'.
                   ret (success, outcome, response_text, context'))) g2)))"

section \<open>The disinterest subsystem\<close>

definition trigger_rates :: "(int \<times> real) list" where
  "trigger_rates = [(0, 6 / 10), (1, 6 / 10), (2, 4 / 10), (3, 2 / 10), (4, 1 / 10), (5, 1 / 10)]"

text \<open>\<^verbatim>\<open>dict.get(key, default)\<close>.\<close>

definition dict_get :: "('k \<times> 'v) list \<Rightarrow> 'k \<Rightarrow> 'v \<Rightarrow> 'v" where
  "dict_get d k dflt = (case map_of d k of None \<Rightarrow> dflt | Some v \<Rightarrow> v)"

text \<open>Lines 747--749: the topic is a substring of the active domain, both lower-cased.\<close>

definition topic_in_domain :: "string option \<Rightarrow> InteractionContext \<Rightarrow> bool" where
  "topic_in_domain topic0 context =
     (case (topic0, domain_active context) of
        (Some t, Some d) \<Rightarrow> t \<noteq> [] \<and> d \<noteq> [] \<and> py_in (lower t) (lower d)
      | _ \<Rightarrow> False)"

text \<open>Lines 751--752.\<close>

definition background_exemption :: "InteractionContext \<Rightarrow> bool" where
  "background_exemption context =
     (0 < bond (npc context) \<and> py_in ''explicitly acknowledged'' (background (npc context)))"

text \<open>Lines 754--767.\<close>

definition disinterest_rate :: "InteractionContext \<Rightarrow> real" where
  "disinterest_rate context =
     (let multiplier = (if attraction_level (npc context) = ROMANTIC then 5 / 10 else 1)
      in dict_get trigger_rates (acting (player context)) (4 / 10) * multiplier)"

definition check_disinterest_trigger ::
  "string option \<Rightarrow> InteractionContext \<Rightarrow> rng \<Rightarrow> error + ((bool \<times> InteractionContext) \<times> rng)" where
  "check_disinterest_trigger topic0 context =
     (if topic_in_domain topic0 context then ret (False, context)
      else if background_exemption context then ret (False, context)
      else rng_bind random_unit (\<lambda>u.
        if u < disinterest_rate context
        then ret (True,
               context\<lparr> npc := (npc context)\<lparr> disinterest_signals :=
                 disinterest_signals (npc context) + 1 \<rparr> \<rparr>)
        else ret (False, context)))"

definition apply_disinterest_consequence :: "InteractionContext \<Rightarrow> string \<times> InteractionContext" where
  "apply_disinterest_consequence context =
     (let npc0 = npc context; signals = disinterest_signals npc0
      in if signals = 1
         then (name npc0 @ '' notices you seem a bit distracted. '' @ [CHR 0x27]
                 @ ''Am I boring you?'' @ [CHR 0x27],
               context\<lparr> npc := npc0\<lparr> receptiveness := receptiveness npc0 - 25 / 100 \<rparr> \<rparr>)
         else if signals = 2
         then (name npc0 @ '' pulls back slightly. '' @ [CHR 0x27]
                 @ ''You don'' @ [CHR 0x27] @ ''t really care about this, do you?'' @ [CHR 0x27],
               context\<lparr> npc := npc0\<lparr> receptiveness := receptiveness npc0 - 5 / 10,
                                       bond := bond npc0 - 25 / 100 \<rparr> \<rparr>)
         else (name npc0 @ '' stops talking. The conversation has ended.'',
               context\<lparr> npc := npc0\<lparr> receptiveness := receptiveness npc0 - 1,
                                       bond := bond npc0 - 5 / 10 \<rparr> \<rparr>))"

section \<open>Termination\<close>

definition should_npc_exit :: "InteractionContext \<Rightarrow> bool \<times> string" where
  "should_npc_exit context =
     (if \<not> can_tolerate_failure (npc context)
      then (True, name (npc context) @ '' politely wraps up the conversation and leaves.'')
      else if 3 \<le> disinterest_signals (npc context)
      then (True, name (npc context) @ '' has lost interest and ends the conversation.'')
      else if receptiveness (npc context) < 1
      then (True, name (npc context) @ '' seems uncomfortable and makes an excuse to leave.'')
      else (False, []))"

section \<open>Spawning and starting an interaction\<close>

definition apply_modifiers_to_npc :: "NPCState \<Rightarrow> NPCTypeModifiers \<Rightarrow> NPCState" where
  "apply_modifiers_to_npc npc_state modifiers =
     npc_state\<lparr> receptiveness := base_receptiveness modifiers, bond := base_bond modifiers,
       type_modifiers := Some modifiers \<rparr>"

text \<open>
  \<^verbatim>\<open>start_interaction\<close>: the dataclass defaults give no momentum and no active domain.
\<close>

definition start_interaction :: "CharacterStats \<Rightarrow> NPCState \<Rightarrow> string \<Rightarrow> string \<Rightarrow> InteractionContext" where
  "start_interaction player0 npc0 location0 time0 =
     \<lparr> npc = npc0, player = player0, interaction_location = location0, time_of_day = time0,
       momentum_bonus = 0, domain_active = None \<rparr>"

section \<open>Sample inputs\<close>

text \<open>The character of the example session in \<^verbatim>\<open>main\<close>.\<close>

definition sample_player :: CharacterStats where
  "sample_player =
     \<lparr> eloquence = 3, emotional_intelligence = 2, body_language_perception = 3,
       persuasion = 2, acting = 2, intuition = 3, social_battery = 50,
       emotional_bandwidth = 100, profession = ''Graphic Designer'',
       hobbies = [''sketching'', ''urban exploration'', ''indie music''],
       location = ''Ypsilanti, Michigan'' \<rparr>"

text \<open>An NPC as the dataclass defaults leave it, before any type modifier is applied.\<close>

definition blank_npc :: NPCState where
  "blank_npc =
     \<lparr> name = ''Sam'', description = ''early 20s, apron'', age_range = ''early 20s'',
       appearance = ''apron'', personality = ''quiet'', background = ''works mornings'',
       interests = [''films''], role = Some SERVICE_WORKER, archetype = Some INTROVERT,
       social_context = Some WORKING, type_modifiers = None, receptiveness = 2, bond = 0,
       consecutive_positives = 0, attraction_level = NEUTRAL, base_flirt_success = 90,
       flirt_uses = 0, failures_this_interaction = 0, disinterest_signals = 0 \<rparr>"

text \<open>The bundle of the \<^verbatim>\<open>WORKING\<close> context, as \<^verbatim>\<open>get_context_modifiers\<close> returns it.\<close>

definition working_modifiers :: NPCTypeModifiers where
  "working_modifiers =
     default_modifiers\<lparr> base_receptiveness := 15 / 10, conversation_patience := 7 / 10,
       time_pressure := True, battery_drain_multiplier := 12 / 10,
       failure_tolerance_modifier := - 1, exits_gracefully := True \<rparr>"

text \<open>The barista of the example session: service worker, introvert, working.\<close>

definition barista :: NPCState where
  "barista =
     apply_modifiers_to_npc blank_npc
       (combine_modifiers (get_role_modifiers SERVICE_WORKER)
          (get_archetype_modifiers INTROVERT) working_modifiers)"

definition sample_choice :: DialogueChoice where
  "sample_choice =
     \<lparr> choice_text = ''Do you draw as well?'', risk_level = SAFE, base_success_rate = 80,
       requires_stats = [], is_flirt = False, is_disinterest_bridge = False,
       topic = Some ''sketching'' \<rparr>"

definition sample_context :: InteractionContext where
  "sample_context = start_interaction sample_player blank_npc ''Coffee shop'' ''Sunday morning''"

text \<open>The same character with a weak eloquence, and contexts anchored to a domain.\<close>

definition weak_player :: CharacterStats where
  "weak_player = sample_player\<lparr> eloquence := 1 \<rparr>"


definition weather_context :: InteractionContext where
  "weather_context = sample_context\<lparr> player := weak_player, domain_active := Some ''weather'' \<rparr>"

text \<open>A flirt, and the same context with the NPC approached romantically.\<close>

definition flirt_choice :: DialogueChoice where
  "flirt_choice = sample_choice\<lparr> is_flirt := True \<rparr>"

definition romantic_context :: InteractionContext where
  "romantic_context = weather_context\<lparr> npc := blank_npc\<lparr> attraction_level := ROMANTIC \<rparr> \<rparr>"

definition jazz_choice :: DialogueChoice where
  "jazz_choice = sample_choice\<lparr> topic := Some ''jazz'' \<rparr>"

definition jazz_context :: InteractionContext where
  "jazz_context = sample_context\<lparr> player := weak_player, domain_active := Some ''jazz'' \<rparr>"

definition barista_context :: InteractionContext where
  "barista_context = start_interaction sample_player barista ''Coffee shop'' ''Sunday morning''"

text \<open>A character whose fifteen points put 6 into acting.\<close>

definition actor_player :: CharacterStats where
  "actor_player =
     sample_player\<lparr> eloquence := 2, emotional_intelligence := 2,
       body_language_perception := 2, persuasion := 2, acting := 6, intuition := 1 \<rparr>"

definition actor_context :: InteractionContext where
  "actor_context = sample_context\<lparr> player := actor_player \<rparr>"

text \<open>A draw sequence on which \<^verbatim>\<open>random.random()\<close> returns one quarter.\<close>

definition quarter_draws :: rng where
  "quarter_draws = (\<lambda>_. 2 ^ 51)"

section \<open>The specification's wording, for comparison\<close>

text \<open>
  The disinterest rate by acting skill as the specification words it: 0 and 1 give 0.6, 2 gives
  0.4, 3 gives 0.2, 4 gives 0.1, 5 and above give 0.1, and values outside the table 0.4.
\<close>

definition claimed_trigger_rate :: "int \<Rightarrow> real" where
  "claimed_trigger_rate a =
     (if a = 0 \<or> a = 1 then 6 / 10
      else if a = 2 then 4 / 10
      else if a = 3 then 2 / 10
      else if a = 4 then 1 / 10
      else if 5 \<le> a then 1 / 10
      else 4 / 10)"

text \<open>
  A context that differs from the given one at most in the patience multiplier and the domain
  boost of the NPC's modifier bundle.
\<close>

definition with_patience_and_boost :: "real \<Rightarrow> real \<Rightarrow> InteractionContext \<Rightarrow> InteractionContext" where
  "with_patience_and_boost p d context =
     context\<lparr> npc := (npc context)\<lparr> type_modifiers :=
       map_option (\<lambda>mods. mods\<lparr> conversation_patience := p, domain_boost := d \<rparr>)
         (type_modifiers (npc context)) \<rparr> \<rparr>"

section \<open>Facts about the random source\<close>

lemma rng_bind_Inl: "m g = Inl e \<Longrightarrow> rng_bind m f g = Inl e"
  by (simp add: rng_bind_def)

lemma rng_bind_Inr: "m g = Inr (x, g') \<Longrightarrow> rng_bind m f g = f x g'"
  by (simp add: rng_bind_def)

lemma rng_bind_ret: "rng_bind (ret x) f g = f x g"
  by (simp add: rng_bind_def ret_def)

lemma randint_empty: "b < a \<Longrightarrow> randint a b g = Inl ValueError"
  by (simp add: randint_def)

lemma randint_ok:
  "a \<le> b \<Longrightarrow> randint a b g = Inr (a + int (g 0) mod (b - a + 1), \<lambda>i. g (Suc i))"
  by (simp add: randint_def next_raw_def)

lemma randint_range:
  assumes "a \<le> b"
  shows "\<exists>r g'. randint a b g = Inr (r, g') \<and> a \<le> r \<and> r \<le> b"
proof -
  have pos: "0 < b - a + 1" using assms by simp
  have "0 \<le> int (g 0) mod (b - a + 1)"
    using pos by (rule pos_mod_sign)
  moreover have "int (g 0) mod (b - a + 1) < b - a + 1"
    using pos by (rule pos_mod_bound)
  ultimately show ?thesis
    using assms by (simp add: randint_ok)
qed

lemma randint_hits:
  assumes "a \<le> r" "r \<le> b"
  shows "randint a b (\<lambda>i. nat (r - a)) = Inr (r, \<lambda>i. nat (r - a))"
proof -
  have "a \<le> b" using assms by simp
  moreover have "(r - a) mod (b - a + 1) = r - a"
    using assms by simp
  ultimately show ?thesis
    using assms by (simp add: randint_ok)
qed

lemma random_unit_ok:
  "random_unit g = Inr (real (g 0 mod 2 ^ 53) / 2 ^ 53, \<lambda>i. g (Suc i))"
  by (simp add: random_unit_def next_raw_def)

lemma random_unit_range:
  "\<exists>u g'. random_unit g = Inr (u, g') \<and> 0 \<le> u \<and> u < 1"
proof -
  define u where "u = real (g 0 mod 2 ^ 53) / 2 ^ 53"
  have "g 0 mod 2 ^ 53 < (2 ^ 53 :: nat)" by simp
  then have "real (g 0 mod 2 ^ 53) < real (2 ^ 53)"
    by (simp only: of_nat_less_iff)
  then have "u < 1" by (simp add: u_def)
  moreover have "0 \<le> u" by (simp add: u_def)
  moreover have "random_unit g = Inr (u, \<lambda>i. g (Suc i))"
    by (simp add: random_unit_ok u_def)
  ultimately show ?thesis by blast
qed

section \<open>The substring test\<close>

lemma starts_with_iff: "starts_with xs ys \<longleftrightarrow> (\<exists>s. ys = xs @ s)"
  by (induction xs ys rule: starts_with.induct) auto

lemma py_in_iff: "py_in xs ys \<longleftrightarrow> (\<exists>p s. ys = p @ xs @ s)"
proof (induction ys)
  case Nil
  show ?case by simp
next
  case (Cons y ys)
  show ?case
  proof
    assume "py_in xs (y # ys)"
    then consider "starts_with xs (y # ys)" | "py_in xs ys" by auto
    then show "\<exists>p s. y # ys = p @ xs @ s"
    proof cases
      case 1
      then obtain s where "y # ys = xs @ s" using starts_with_iff by blast
      then have "y # ys = [] @ xs @ s" by simp
      then show ?thesis by blast
    next
      case 2
      then obtain p s where "ys = p @ xs @ s" using Cons.IH by blast
      then have "y # ys = (y # p) @ xs @ s" by simp
      then show ?thesis by blast
    qed
  next
    assume "\<exists>p s. y # ys = p @ xs @ s"
    then obtain p s where ps: "y # ys = p @ xs @ s" by blast
    show "py_in xs (y # ys)"
    proof (cases p)
      case Nil
      then have "starts_with xs (y # ys)" using ps starts_with_iff by auto
      then show ?thesis by simp
    next
      case (Cons a p')
      then have "ys = p' @ xs @ s" using ps by simp
      then have "py_in xs ys" using Cons.IH by blast
      then show ?thesis by simp
    qed
  qed
qed

section \<open>The modifier combination\<close>

text \<open>
  The bundle of the \<^verbatim>\<open>WORKING\<close> context does not depend on the draws made for the
  \<^verbatim>\<open>TRAPPED\<close> entry.
\<close>

lemma get_context_modifiers_total:
  "\<exists>m g'. get_context_modifiers c g = Inr (m, g')"
  by (simp add: get_context_modifiers_def rng_bind_def choice_def next_raw_def ret_def)

lemma get_context_modifiers_working:
  "result_of (get_context_modifiers WORKING g) =
     Inr (default_modifiers\<lparr> base_receptiveness := 15 / 10, conversation_patience := 7 / 10,
            time_pressure := True, battery_drain_multiplier := 12 / 10,
            failure_tolerance_modifier := - 1, exits_gracefully := True \<rparr>)"
  by (simp add: get_context_modifiers_def rng_bind_def choice_def next_raw_def ret_def
      result_of_def)

text \<open>
  Claim C9. \<^verbatim>\<open>combine_modifiers\<close> returns, field by field: the mean of the three
  receptiveness values, the largest bond, the product of the patience multipliers, the
  disjunction of the time-pressure flags, the sum of the domain boosts, the product of the
  battery-drain multipliers, for each of the four behaviour flags the disjunction of the role's
  and the archetype's value (the context's is not read), the sum of the failure-tolerance
  modifiers and the conjunction of the exits-gracefully flags. It reads no random draw, so equal
  bundles give equal results. For service worker, introvert and working the combined
  receptiveness is below 2 and the combined battery-drain multiplier is above 1, whatever the
  draws of the context lookup.
\<close>

theorem combine_modifiers_rule:
  "base_receptiveness (combine_modifiers r a c) =
     (base_receptiveness r + base_receptiveness a + base_receptiveness c) / 3
   \<and> base_bond (combine_modifiers r a c) = Max {base_bond r, base_bond a, base_bond c}
   \<and> conversation_patience (combine_modifiers r a c) =
       conversation_patience r * conversation_patience a * conversation_patience c
   \<and> time_pressure (combine_modifiers r a c) =
       (time_pressure r \<or> time_pressure a \<or> time_pressure c)
   \<and> domain_boost (combine_modifiers r a c) = domain_boost r + domain_boost a + domain_boost c
   \<and> battery_drain_multiplier (combine_modifiers r a c) =
       battery_drain_multiplier r * battery_drain_multiplier a * battery_drain_multiplier c
   \<and> carries_conversation (combine_modifiers r a c) =
       (carries_conversation r \<or> carries_conversation a)
   \<and> comfortable_silence (combine_modifiers r a c) =
       (comfortable_silence r \<or> comfortable_silence a)
   \<and> critical_of_flirting (combine_modifiers r a c) =
       (critical_of_flirting r \<or> critical_of_flirting a)
   \<and> enthusiastic_about_interests (combine_modifiers r a c) =
       (enthusiastic_about_interests r \<or> enthusiastic_about_interests a)
   \<and> failure_tolerance_modifier (combine_modifiers r a c) =
       failure_tolerance_modifier r + failure_tolerance_modifier a + failure_tolerance_modifier c
   \<and> exits_gracefully (combine_modifiers r a c) =
       (exits_gracefully r \<and> exits_gracefully a \<and> exits_gracefully c)
   \<and> (r = r' \<and> a = a' \<and> c = c' \<longrightarrow> combine_modifiers r a c = combine_modifiers r' a' c')
   \<and> (\<exists>w g'. get_context_modifiers WORKING g = Inr (w, g')
        \<and> base_receptiveness
            (combine_modifiers (get_role_modifiers SERVICE_WORKER)
               (get_archetype_modifiers INTROVERT) w) < 2
        \<and> 1 < battery_drain_multiplier
            (combine_modifiers (get_role_modifiers SERVICE_WORKER)
               (get_archetype_modifiers INTROVERT) w))"
proof -
  have fields:
    "base_receptiveness (combine_modifiers r a c) =
       (base_receptiveness r + base_receptiveness a + base_receptiveness c) / 3"
    "base_bond (combine_modifiers r a c) = Max {base_bond r, base_bond a, base_bond c}"
    "conversation_patience (combine_modifiers r a c) =
       conversation_patience r * conversation_patience a * conversation_patience c"
    "time_pressure (combine_modifiers r a c) =
       (time_pressure r \<or> time_pressure a \<or> time_pressure c)"
    "domain_boost (combine_modifiers r a c) = domain_boost r + domain_boost a + domain_boost c"
    "battery_drain_multiplier (combine_modifiers r a c) =
       battery_drain_multiplier r * battery_drain_multiplier a * battery_drain_multiplier c"
    by (simp_all add: combine_modifiers_def max.assoc)
  have flags:
    "carries_conversation (combine_modifiers r a c) =
       (carries_conversation r \<or> carries_conversation a)"
    "comfortable_silence (combine_modifiers r a c) =
       (comfortable_silence r \<or> comfortable_silence a)"
    "critical_of_flirting (combine_modifiers r a c) =
       (critical_of_flirting r \<or> critical_of_flirting a)"
    "enthusiastic_about_interests (combine_modifiers r a c) =
       (enthusiastic_about_interests r \<or> enthusiastic_about_interests a)"
    "failure_tolerance_modifier (combine_modifiers r a c) =
       failure_tolerance_modifier r + failure_tolerance_modifier a + failure_tolerance_modifier c"
    "exits_gracefully (combine_modifiers r a c) =
       (exits_gracefully r \<and> exits_gracefully a \<and> exits_gracefully c)"
    by (simp_all add: combine_modifiers_def)
  have scenario:
    "\<exists>w g'. get_context_modifiers WORKING g = Inr (w, g')
        \<and> base_receptiveness
            (combine_modifiers (get_role_modifiers SERVICE_WORKER)
               (get_archetype_modifiers INTROVERT) w) < 2
        \<and> 1 < battery_drain_multiplier
            (combine_modifiers (get_role_modifiers SERVICE_WORKER)
               (get_archetype_modifiers INTROVERT) w)"
    by (simp add: get_context_modifiers_def rng_bind_def choice_def next_raw_def ret_def
        combine_modifiers_def default_modifiers_def)
  show ?thesis
    using fields flags scenario by blast
qed

text \<open>
  The rule at a neighbour who is an enthusiast, met in a context bundle that sets every
  behaviour flag: the flags of the context do not reach the result.
\<close>

theorem combine_modifiers_rule_witness:
  "base_receptiveness
     (combine_modifiers (get_role_modifiers NEIGHBOR) (get_archetype_modifiers ENTHUSIAST)
        (default_modifiers\<lparr> base_receptiveness := 17 / 10, carries_conversation := True,
           comfortable_silence := True, critical_of_flirting := True \<rparr>)) = 2
   \<and> base_bond
     (combine_modifiers (get_role_modifiers NEIGHBOR) (get_archetype_modifiers ENTHUSIAST)
        (default_modifiers\<lparr> base_receptiveness := 17 / 10, carries_conversation := True,
           comfortable_silence := True, critical_of_flirting := True \<rparr>)) = 1 / 4
   \<and> \<not> carries_conversation
     (combine_modifiers (get_role_modifiers NEIGHBOR) (get_archetype_modifiers ENTHUSIAST)
        (default_modifiers\<lparr> base_receptiveness := 17 / 10, carries_conversation := True,
           comfortable_silence := True, critical_of_flirting := True \<rparr>))
   \<and> enthusiastic_about_interests
     (combine_modifiers (get_role_modifiers NEIGHBOR) (get_archetype_modifiers ENTHUSIAST)
        (default_modifiers\<lparr> base_receptiveness := 17 / 10, carries_conversation := True,
           comfortable_silence := True, critical_of_flirting := True \<rparr>))
   \<and> failure_tolerance_modifier
     (combine_modifiers (get_role_modifiers NEIGHBOR) (get_archetype_modifiers ENTHUSIAST)
        (default_modifiers\<lparr> base_receptiveness := 17 / 10, carries_conversation := True,
           comfortable_silence := True, critical_of_flirting := True \<rparr>)) = 2
   \<and> combine_modifiers (get_role_modifiers NEIGHBOR) (get_archetype_modifiers ENTHUSIAST)
        default_modifiers
      = combine_modifiers (get_role_modifiers NEIGHBOR) (get_archetype_modifiers ENTHUSIAST)
        default_modifiers"
  using combine_modifiers_rule
    [of "get_role_modifiers NEIGHBOR" "get_archetype_modifiers ENTHUSIAST"
        "default_modifiers\<lparr> base_receptiveness := 17 / 10, carries_conversation := True,
           comfortable_silence := True, critical_of_flirting := True \<rparr>"
        "get_role_modifiers NEIGHBOR" "get_archetype_modifiers ENTHUSIAST"
        "default_modifiers\<lparr> base_receptiveness := 17 / 10, carries_conversation := True,
           comfortable_silence := True, critical_of_flirting := True \<rparr>"]
  by (simp add: default_modifiers_def)

section \<open>The flirt success rate\<close>

text \<open>
  Claim C3. \<^verbatim>\<open>get_flirt_success_rate\<close> returns the base flirt success, less 20 per flirt
  use, plus the consecutive positives times a factor of 2, 3, 4, 5 or 6 by bond tier (below 1,
  below 2, below 3, below 4, from 4 on), clamped to 10..100. The result is between 10 and 100
  for every NPC state, so in particular for non-negative counters.
\<close>

theorem get_flirt_success_rate_formula:
  "get_flirt_success_rate self =
     max 10 (min 100
       (base_flirt_success self - 20 * flirt_uses self
        + consecutive_positives self *
            (if bond self < 1 then 2 else if bond self < 2 then 3
             else if bond self < 3 then 4 else if bond self < 4 then 5 else 6)))
   \<and> 10 \<le> get_flirt_success_rate self
   \<and> get_flirt_success_rate self \<le> 100"
  by (simp add: get_flirt_success_rate_def Let_def mult.commute)

section \<open>Termination\<close>

lemma failure_tolerance_rule:
  "failure_tolerance self =
     (let tier = (if bond self < 1 then 1 else if bond self < 2 then 2
                  else if bond self < 3 then 2 else if bond self < 4 then 3 else 4)
      in case type_modifiers self of
           None \<Rightarrow> tier
         | Some mods \<Rightarrow> max 0 (tier + failure_tolerance_modifier mods))"
  by (simp add: failure_tolerance_def base_tolerance_def adjust_failure_tolerance_def Let_def
      split: option.splits)

text \<open>
  Claim C8. \<^verbatim>\<open>should_npc_exit\<close> tests, in this order and with the first match winning: the
  failure count has reached the tolerance (the bond-tier base 1, 2, 2, 3, 4, plus the NPC's
  failure-tolerance modifier when it has a modifier bundle, floored at 0); the disinterest
  signals are at least 3; the receptiveness is below 1. The three exit messages differ from one
  another and from the empty message of the no-exit case. An NPC at bond 0 with one failure and
  no modifier (no bundle, or a bundle whose modifier is 0) exits on the first branch.
\<close>

theorem should_npc_exit_order:
  "should_npc_exit context =
     (if failure_tolerance (npc context) \<le> failures_this_interaction (npc context)
      then (True, name (npc context) @ '' politely wraps up the conversation and leaves.'')
      else if 3 \<le> disinterest_signals (npc context)
      then (True, name (npc context) @ '' has lost interest and ends the conversation.'')
      else if receptiveness (npc context) < 1
      then (True, name (npc context) @ '' seems uncomfortable and makes an excuse to leave.'')
      else (False, []))
   \<and> failure_tolerance (npc context) =
       (let tier = (if bond (npc context) < 1 then 1 else if bond (npc context) < 2 then 2
                    else if bond (npc context) < 3 then 2 else if bond (npc context) < 4 then 3
                    else 4)
        in case type_modifiers (npc context) of
             None \<Rightarrow> tier
           | Some mods \<Rightarrow> max 0 (tier + failure_tolerance_modifier mods))
   \<and> n @ '' politely wraps up the conversation and leaves.''
       \<noteq> n @ '' has lost interest and ends the conversation.''
   \<and> n @ '' politely wraps up the conversation and leaves.''
       \<noteq> n @ '' seems uncomfortable and makes an excuse to leave.''
   \<and> n @ '' has lost interest and ends the conversation.''
       \<noteq> n @ '' seems uncomfortable and makes an excuse to leave.''
   \<and> should_npc_exit
       (context\<lparr> npc := (npc context)\<lparr> bond := 0, type_modifiers := None,
          failures_this_interaction := 1 \<rparr> \<rparr>)
      = (True, name (npc context) @ '' politely wraps up the conversation and leaves.'')
   \<and> should_npc_exit
       (context\<lparr> npc := (npc context)\<lparr> bond := 0,
          type_modifiers := Some (mods\<lparr> failure_tolerance_modifier := 0 \<rparr>),
          failures_this_interaction := 1 \<rparr> \<rparr>)
      = (True, name (npc context) @ '' politely wraps up the conversation and leaves.'')"
proof -
  have order:
    "should_npc_exit context =
     (if failure_tolerance (npc context) \<le> failures_this_interaction (npc context)
      then (True, name (npc context) @ '' politely wraps up the conversation and leaves.'')
      else if 3 \<le> disinterest_signals (npc context)
      then (True, name (npc context) @ '' has lost interest and ends the conversation.'')
      else if receptiveness (npc context) < 1
      then (True, name (npc context) @ '' seems uncomfortable and makes an excuse to leave.'')
      else (False, []))"
    by (simp add: should_npc_exit_def can_tolerate_failure_def not_less)
  have msgs:
    "n @ '' politely wraps up the conversation and leaves.''
       \<noteq> n @ '' has lost interest and ends the conversation.''"
    "n @ '' politely wraps up the conversation and leaves.''
       \<noteq> n @ '' seems uncomfortable and makes an excuse to leave.''"
    "n @ '' has lost interest and ends the conversation.''
       \<noteq> n @ '' seems uncomfortable and makes an excuse to leave.''"
    by simp_all
  have first_failure:
    "should_npc_exit
       (context\<lparr> npc := (npc context)\<lparr> bond := 0, type_modifiers := None,
          failures_this_interaction := 1 \<rparr> \<rparr>)
      = (True, name (npc context) @ '' politely wraps up the conversation and leaves.'')"
    "should_npc_exit
       (context\<lparr> npc := (npc context)\<lparr> bond := 0,
          type_modifiers := Some (mods\<lparr> failure_tolerance_modifier := 0 \<rparr>),
          failures_this_interaction := 1 \<rparr> \<rparr>)
      = (True, name (npc context) @ '' politely wraps up the conversation and leaves.'')"
    by (simp_all add: should_npc_exit_def can_tolerate_failure_def failure_tolerance_def
        base_tolerance_def adjust_failure_tolerance_def)
  show ?thesis
    using order failure_tolerance_rule [of "npc context"] msgs first_failure by blast
qed

section \<open>The success rate and the roll\<close>

lemma roll_bonuses_total:
  "\<exists>bonuses g'. roll_bonuses stats g = Inr (bonuses, g')
     \<and> map fst bonuses = map fst (filter (\<lambda>(n, v). v \<le> 1) stats)
     \<and> list_all (\<lambda>b. 1 \<le> b \<and> b \<le> 3) (map snd bonuses)"
proof (induction stats arbitrary: g)
  case Nil
  show ?case by (simp add: ret_def)
next
  case (Cons s stats)
  obtain n v where s: "s = (n, v)" by (cases s)
  show ?case
  proof (cases "v \<le> 1")
    case False
    then show ?thesis using Cons.IH [of g] by (simp add: s)
  next
    case True
    obtain r g1 where r: "randint 1 3 g = Inr (r, g1)" "1 \<le> r" "r \<le> 3"
      using randint_range [of 1 3 g] by auto
    obtain bs g2 where bs: "roll_bonuses stats g1 = Inr (bs, g2)"
      "map fst bs = map fst (filter (\<lambda>(n, v). v \<le> 1) stats)"
      "list_all (\<lambda>b. 1 \<le> b \<and> b \<le> 3) (map snd bs)"
      using Cons.IH [of g1] by auto
    have "roll_bonuses (s # stats) g = Inr ((n, r) # bs, g2)"
      using True r(1) bs(1) by (simp add: s rng_bind_def ret_def)
    then show ?thesis using True r bs by (simp add: s)
  qed
qed

lemma get_domain_bonus_total:
  "\<exists>bonuses g'. get_domain_bonus self t g = Inr (bonuses, g')"
proof (cases "is_domain self t")
  case True
  then show ?thesis
    using roll_bonuses_total
      [of "[(''eloquence'', eloquence self), (''acting'', acting self),
            (''persuasion'', persuasion self), (''intuition'', intuition self)]" g]
    by (auto simp: get_domain_bonus_def)
next
  case False
  then show ?thesis by (simp add: get_domain_bonus_def ret_def)
qed

lemma domain_bonus_points_total:
  "\<exists>boost g'. domain_bonus_points choice0 context g = Inr (boost, g')"
proof (cases "topic choice0")
  case None
  then show ?thesis by (simp add: domain_bonus_points_def ret_def)
next
  case (Some t)
  show ?thesis
  proof (cases "t \<noteq> [] \<and> truthy (domain_active context)")
    case True
    obtain bs g' where "get_domain_bonus (player context) t g = Inr (bs, g')"
      using get_domain_bonus_total by blast
    then show ?thesis
      using Some True by (simp add: domain_bonus_points_def rng_bind_def ret_def)
  next
    case False
    then show ?thesis using Some by (auto simp: domain_bonus_points_def ret_def)
  qed
qed

lemma success_rate_of_rule:
  assumes "domain_bonus_points choice0 context g = Inr (boost, g1)"
  shows "success_rate_of choice0 context g =
     Inr (if is_flirt choice0 \<and> attraction_level (npc context) = ROMANTIC
          then get_flirt_success_rate (npc context)
          else base_success_rate choice0
               + min (momentum_bonus context) (get_momentum_cap (risk_level choice0)) + boost,
          g1)"
  using assms by (simp add: success_rate_of_def Let_def rng_bind_def ret_def)

lemma roll_for_success_rule:
  "\<exists>roll g'. roll_for_success rate g = Inr ((roll, roll \<le> rate), g') \<and> 1 \<le> roll \<and> roll \<le> 100"
proof -
  obtain r g' where "randint 1 100 g = Inr (r, g')" "1 \<le> r" "r \<le> 100"
    using randint_range [of 1 100 g] by auto
  then show ?thesis by (simp add: roll_for_success_def rng_bind_def ret_def)
qed


lemma battery_changes_raises: "battery_changes attraction g = Inl ValueError"
  by (cases attraction) (simp_all add: rng_bind_def randint_def next_raw_def)

lemma bandwidth_changes_raises: "bandwidth_changes attraction g = Inl ValueError"
  by (cases attraction) (simp_all add: rng_bind_def randint_def next_raw_def)

lemma apply_outcome_raises: "apply_outcome outcome choice0 context success g = Inl ValueError"
  by (simp add: apply_outcome_def Let_def rng_bind_Inl battery_changes_raises)

lemma determine_outcome_total:
  "\<exists>outcome g'. determine_outcome choice0 success context g = Inr (outcome, g')"
  by (simp add: determine_outcome_def rng_bind_def ret_def random_unit_ok)

lemma roll_for_success_exact:
  "roll_for_success rate g =
     Inr ((1 + int (g 0) mod 100, 1 + int (g 0) mod 100 \<le> rate), \<lambda>i. g (Suc i))"
  by (simp add: roll_for_success_def rng_bind_def ret_def randint_ok)

lemma resolve_choice_rule:
  assumes "success_rate_of choice0 context g = Inr (rate, g1)"
  shows "resolve_choice service choice0 context g =
     ([npc_response_request choice0 context (1 + int (g1 0) mod 100 \<le> rate)], Inl ValueError)"
proof -
  obtain outcome g3 where outcome:
    "determine_outcome choice0 (1 + int (g1 0) mod 100 \<le> rate) context (\<lambda>i. g1 (Suc i))
       = Inr (outcome, g3)"
    using determine_outcome_total by blast
  show ?thesis
    by (simp add: resolve_choice_def assms roll_for_success_exact Let_def rng_bind_def outcome
        apply_outcome_raises)
qed

lemma resolve_choice_raises: "snd (resolve_choice service choice0 context g) = Inl ValueError"
proof -
  obtain boost g1 where "domain_bonus_points choice0 context g = Inr (boost, g1)"
    using domain_bonus_points_total by blast
  then obtain rate where "success_rate_of choice0 context g = Inr (rate, g1)"
    using success_rate_of_rule by blast
  then show ?thesis by (simp add: resolve_choice_rule)
qed


lemma weak_is_domain: "is_domain weak_player ''sketching''"
  by code_simp

lemma weak_not_jazz: "\<not> is_domain weak_player ''jazz''"
  by code_simp




section \<open>The domain bonus\<close>

lemma roll_bonuses_exact:
  "roll_bonuses stats g =
     Inr (zip (map fst (filter (\<lambda>(n, v). v \<le> 1) stats))
            (map (\<lambda>k. 1 + int (g k) mod 3) [0..<length (filter (\<lambda>(n, v). v \<le> 1) stats)]),
          \<lambda>i. g (i + length (filter (\<lambda>(n, v). v \<le> 1) stats)))"
proof (induction stats arbitrary: g)
  case Nil
  show ?case by (simp add: ret_def)
next
  case (Cons s stats)
  obtain n v where s: "s = (n, v)" by (cases s)
  show ?case
  proof (cases "v \<le> 1")
    case False
    then show ?thesis using Cons.IH [of g] by (simp add: s)
  next
    case True
    have draw: "randint 1 3 g = Inr (1 + int (g 0) mod 3, \<lambda>i. g (Suc i))"
      by (simp add: randint_ok)
    show ?thesis
      using True Cons.IH [of "\<lambda>i. g (Suc i)"]
      by (simp add: s rng_bind_def draw ret_def map_upt_Suc del: upt_Suc)
  qed
qed

lemma get_domain_bonus_exact:
  "get_domain_bonus self t g =
     (let granted =
            (if is_domain self t
             then map fst (filter (\<lambda>(n, v). v \<le> 1)
                    [(''eloquence'', eloquence self), (''acting'', acting self),
                     (''persuasion'', persuasion self), (''intuition'', intuition self)])
             else [])
      in Inr (zip granted (map (\<lambda>k. 1 + int (g k) mod 3) [0..<length granted]),
              \<lambda>i. g (i + length granted)))"
proof (cases "is_domain self t")
  case True
  then show ?thesis
    unfolding get_domain_bonus_def Let_def
    by (simp only: roll_bonuses_exact if_True if_False not_True_eq_False length_map)
next
  case False
  then show ?thesis by (simp add: get_domain_bonus_def ret_def)
qed

lemma roll_list_range: "list_all (\<lambda>r. 1 \<le> r \<and> r \<le> 3) (map (\<lambda>k. 1 + int (g k) mod 3) ks)"
proof -
  have "\<And>k. 0 \<le> int (g k) mod 3 \<and> int (g k) mod 3 < 3"
    by simp
  then have "\<And>k. 1 \<le> 1 + int (g k) mod 3 \<and> 1 + int (g k) mod 3 \<le> 3"
    by (simp add: add.commute add_increasing2)
  then show ?thesis by (simp add: list_all_iff)
qed

lemma sum_list_snd_zip:
  "length xs = length ys \<Longrightarrow> sum_list (map snd (zip xs ys)) = sum_list ys"
  by (simp add: map_snd_zip)


text \<open>
  Claim C4, as amended. When the move carries a non-empty topic and the context has a non-empty
  active domain, \<^verbatim>\<open>resolve_choice\<close> asks the player's \<^verbatim>\<open>get_domain_bonus\<close> for the topic. Bonus
  points are granted exactly when the lower-cased topic is a substring of the lower-cased
  profession or of one of the lower-cased hobbies; the active domain is only required to be set,
  its text is not compared with the topic. Then each of eloquence, acting, persuasion and
  intuition (in this order) whose value is at most 1 receives the result of one
  \<^verbatim>\<open>random.randint(1, 3)\<close> on the next draw of the random source: the k-th granted skill gets
  1 plus the k-th draw modulo 3, a value of 1..3, each of which some draw produces, and exactly
  as many draws are consumed as skills are granted. The bonus is twice the sum of these rolls.
  The success rate is the base rate plus the capped momentum plus this bonus, unless the move
  is a flirt towards an NPC approached romantically: then the rolls are still drawn, and the
  flirt success rate replaces the sum.
\<close>

theorem domain_bonus_rule:
  assumes "topic choice0 = Some t" and "t \<noteq> []"
    and "domain_active context = Some d" and "d \<noteq> []"
  shows "\<exists>granted rolls g'.
     granted =
         (if py_in (lower t) (lower (profession (player context)))
             \<or> (\<exists>hobby \<in> set (hobbies (player context)). py_in (lower t) (lower hobby))
          then map fst (filter (\<lambda>(n, v). v \<le> 1)
                 [(''eloquence'', eloquence (player context)),
                  (''acting'', acting (player context)),
                  (''persuasion'', persuasion (player context)),
                  (''intuition'', intuition (player context))])
          else [])
     \<and> rolls = map (\<lambda>k. 1 + int (g k) mod 3) [0..<length granted]
     \<and> g' = (\<lambda>i. g (i + length granted))
     \<and> (\<forall>k < length granted.
           result_of (randint 1 3 (\<lambda>i. g (k + i))) = Inr (rolls ! k))
     \<and> list_all (\<lambda>r. 1 \<le> r \<and> r \<le> 3) rolls
     \<and> (\<forall>r. 1 \<le> r \<and> r \<le> 3 \<longrightarrow> (\<exists>h. result_of (randint 1 3 h) = Inr r))
     \<and> get_domain_bonus (player context) t g = Inr (zip granted rolls, g')
     \<and> domain_bonus_points choice0 context g = Inr (2 * sum_list rolls, g')
     \<and> success_rate_of choice0 context g =
          Inr (if is_flirt choice0 \<and> attraction_level (npc context) = ROMANTIC
               then get_flirt_success_rate (npc context)
               else base_success_rate choice0
                    + min (momentum_bonus context) (get_momentum_cap (risk_level choice0))
                    + 2 * sum_list rolls, g')"
proof -
  define granted where "granted =
         (if py_in (lower t) (lower (profession (player context)))
             \<or> (\<exists>hobby \<in> set (hobbies (player context)). py_in (lower t) (lower hobby))
          then map fst (filter (\<lambda>(n, v). v \<le> 1)
                 [(''eloquence'', eloquence (player context)),
                  (''acting'', acting (player context)),
                  (''persuasion'', persuasion (player context)),
                  (''intuition'', intuition (player context))])
          else [])"
  define rolls where "rolls = map (\<lambda>k. 1 + int (g k) mod 3) [0..<length granted]"
  define g' where "g' = (\<lambda>i. g (i + length granted))"
  have dom: "is_domain (player context) t =
      (py_in (lower t) (lower (profession (player context)))
       \<or> (\<exists>hobby \<in> set (hobbies (player context)). py_in (lower t) (lower hobby)))"
    by (simp add: is_domain_def list_ex_iff)
  have bonus: "get_domain_bonus (player context) t g = Inr (zip granted rolls, g')"
    unfolding get_domain_bonus_exact dom Let_def granted_def [symmetric]
      rolls_def [symmetric] g'_def [symmetric] ..
  have len: "length granted = length rolls" by (simp add: rolls_def)
  have points: "domain_bonus_points choice0 context g = Inr (2 * sum_list rolls, g')"
    using assms bonus sum_list_snd_zip [OF len]
    by (simp add: domain_bonus_points_def truthy_def rng_bind_def ret_def)
  have rate: "success_rate_of choice0 context g =
          Inr (if is_flirt choice0 \<and> attraction_level (npc context) = ROMANTIC
               then get_flirt_success_rate (npc context)
               else base_success_rate choice0
                    + min (momentum_bonus context) (get_momentum_cap (risk_level choice0))
                    + 2 * sum_list rolls, g')"
    using success_rate_of_rule [OF points] .
  have each: "\<forall>k < length granted.
           result_of (randint 1 3 (\<lambda>i. g (k + i))) = Inr (rolls ! k)"
    by (simp add: randint_ok result_of_def rolls_def)
  have range: "list_all (\<lambda>r. 1 \<le> r \<and> r \<le> 3) rolls"
    unfolding rolls_def by (rule roll_list_range)
  have hits: "\<forall>r. 1 \<le> r \<and> r \<le> 3 \<longrightarrow> (\<exists>h. result_of (randint 1 3 h) = Inr r)"
  proof (intro allI impI)
    fix r :: int
    assume "1 \<le> r \<and> r \<le> 3"
    then have "randint 1 3 (\<lambda>i. nat (r - 1)) = Inr (r, \<lambda>i. nat (r - 1))"
      using randint_hits [of 1 r 3] by simp
    then have "result_of (randint 1 3 (\<lambda>i. nat (r - 1))) = Inr r"
      by (simp add: result_of_def)
    then show "\<exists>h. result_of (randint 1 3 h) = Inr r" by blast
  qed
  show ?thesis
    using granted_def rolls_def g'_def each range hits bonus points rate by blast
qed

lemma weather_eval:
  "domain_bonus_points sample_choice weather_context (\<lambda>_. 0) = Inr (2, \<lambda>_. 0)"
  "domain_bonus_points sample_choice weather_context (\<lambda>_. 2) = Inr (6, \<lambda>_. 2)"
  "domain_bonus_points flirt_choice romantic_context (\<lambda>_. 2) = Inr (6, \<lambda>_. 2)"
  using weak_is_domain
  by (simp_all add: domain_bonus_points_def sample_choice_def weather_context_def truthy_def
      get_domain_bonus_def sample_context_def start_interaction_def rng_bind_def ret_def
      randint_def next_raw_def weak_player_def sample_player_def flirt_choice_def
      romantic_context_def)

text \<open>
  The amended rule at the topic ``sketching'' (one of the hobbies) under the active domain
  ``weather'', for a player of eloquence 1: the draw 0 rolls 1 and the bonus is 2, the draw 2
  rolls 3, the bonus is 6 and the safe choice of base rate 80 resolves at 86; the same choice
  as a flirt towards an NPC approached romantically resolves at the flirt rate 90.
\<close>

theorem domain_bonus_rule_witness:
  "result_of (domain_bonus_points sample_choice weather_context (\<lambda>_. 0)) = Inr 2
   \<and> result_of (domain_bonus_points sample_choice weather_context (\<lambda>_. 2)) = Inr 6
   \<and> result_of (success_rate_of sample_choice weather_context (\<lambda>_. 2)) = Inr 86
   \<and> result_of (success_rate_of flirt_choice romantic_context (\<lambda>_. 2)) = Inr 90"
proof -
  have plain: "success_rate_of sample_choice weather_context (\<lambda>_. 2) = Inr (86, \<lambda>_. 2)"
    using success_rate_of_rule [OF weather_eval(2)]
    by (simp add: sample_choice_def weather_context_def sample_context_def
        start_interaction_def blank_npc_def)
  have flirt: "success_rate_of flirt_choice romantic_context (\<lambda>_. 2) = Inr (90, \<lambda>_. 2)"
    using success_rate_of_rule [OF weather_eval(3)]
    by (simp add: flirt_choice_def romantic_context_def sample_choice_def blank_npc_def
        get_flirt_success_rate_def)
  show ?thesis
    using domain_bonus_rule
        [of sample_choice "''sketching''" weather_context "''weather''" "\<lambda>_. 2"]
      weather_eval plain flirt
    by (simp add: result_of_def)
qed

text \<open>
  Claim C4 as stated fails in both directions. With topic and active domain both ``jazz'' and a
  player of eloquence 1 whose profession and hobbies do not mention jazz, no bonus is granted.
  With the topic ``sketching'' under the active domain ``weather'' the bonus is granted.
\<close>

theorem domain_bonus_counterexample:
  "topic jazz_choice = domain_active jazz_context
   \<and> topic_in_domain (topic jazz_choice) jazz_context
   \<and> eloquence (player jazz_context) \<le> 1
   \<and> result_of (domain_bonus_points jazz_choice jazz_context (\<lambda>_. 0)) = Inr 0
   \<and> topic sample_choice \<noteq> domain_active weather_context
   \<and> \<not> topic_in_domain (topic sample_choice) weather_context
   \<and> result_of (domain_bonus_points sample_choice weather_context (\<lambda>_. 0)) = Inr 2"
proof -
  have a: "topic_in_domain (topic jazz_choice) jazz_context" by code_simp
  have b: "\<not> topic_in_domain (topic sample_choice) weather_context" by code_simp
  have c: "result_of (domain_bonus_points jazz_choice jazz_context (\<lambda>_. 0)) = Inr 0"
    using weak_not_jazz
    by (simp add: result_of_def domain_bonus_points_def jazz_choice_def jazz_context_def
        truthy_def get_domain_bonus_def sample_context_def start_interaction_def ret_def
        rng_bind_def sample_choice_def)
  have d: "result_of (domain_bonus_points sample_choice weather_context (\<lambda>_. 0)) = Inr 2"
    using weather_eval(1) by (simp add: result_of_def)
  have e: "topic jazz_choice = domain_active jazz_context"
    "eloquence (player jazz_context) \<le> 1"
    "topic sample_choice \<noteq> domain_active weather_context"
    by (simp_all add: jazz_choice_def jazz_context_def sample_choice_def weather_context_def
        sample_context_def start_interaction_def weak_player_def sample_player_def)
  show ?thesis using a b c d e by blast
qed

section \<open>The disinterest check\<close>

lemma trigger_rate_table:
  "dict_get trigger_rates a (4 / 10) =
     (if a = 0 \<or> a = 1 then 6 / 10
      else if a = 2 then 4 / 10
      else if a = 3 then 2 / 10
      else if a = 4 \<or> a = 5 then 1 / 10
      else 4 / 10)"
  by (simp add: dict_get_def trigger_rates_def)

text \<open>
  Claim C7, as amended. \<^verbatim>\<open>check_disinterest_trigger\<close> draws nothing and reports no trigger when
  the topic and the active domain are both non-empty and the lower-cased topic is a substring of
  the lower-cased active domain, or when the bond is positive and the NPC's background contains
  the marker ``explicitly acknowledged''. Otherwise it draws a value of [0, 1) and triggers
  exactly when the draw is below the rate: 0.6 for acting 0 or 1, 0.4 for 2, 0.2 for 3, 0.1 for
  4 or 5, and the default 0.4 for every other value (6 and above included), halved when the NPC
  is approached romantically. On a trigger the disinterest signals grow by exactly one; without
  one the context is unchanged.
\<close>

theorem check_disinterest_trigger_rule:
  "\<exists>u g'. random_unit g = Inr (u, g') \<and> 0 \<le> u \<and> u < 1
     \<and> check_disinterest_trigger topic0 context g =
         (if topic_in_domain topic0 context \<or> background_exemption context
          then Inr ((False, context), g)
          else if u < disinterest_rate context
          then Inr ((True, context\<lparr> npc := (npc context)\<lparr> disinterest_signals :=
                            disinterest_signals (npc context) + 1 \<rparr> \<rparr>), g')
          else Inr ((False, context), g'))
     \<and> disinterest_rate context =
         (if acting (player context) = 0 \<or> acting (player context) = 1 then 6 / 10
          else if acting (player context) = 2 then 4 / 10
          else if acting (player context) = 3 then 2 / 10
          else if acting (player context) = 4 \<or> acting (player context) = 5 then 1 / 10
          else 4 / 10)
         * (if attraction_level (npc context) = ROMANTIC then 1 / 2 else 1)
     \<and> topic_in_domain topic0 context =
         (\<exists>t d. topic0 = Some t \<and> domain_active context = Some d \<and> t \<noteq> [] \<and> d \<noteq> []
            \<and> py_in (lower t) (lower d))
     \<and> background_exemption context =
         (0 < bond (npc context)
          \<and> py_in ''explicitly acknowledged'' (background (npc context)))"
proof -
  obtain u g' where u: "random_unit g = Inr (u, g')" "0 \<le> u" "u < 1"
    using random_unit_range by blast
  have check: "check_disinterest_trigger topic0 context g =
         (if topic_in_domain topic0 context \<or> background_exemption context
          then Inr ((False, context), g)
          else if u < disinterest_rate context
          then Inr ((True, context\<lparr> npc := (npc context)\<lparr> disinterest_signals :=
                            disinterest_signals (npc context) + 1 \<rparr> \<rparr>), g')
          else Inr ((False, context), g'))"
    using u(1) by (simp add: check_disinterest_trigger_def rng_bind_def ret_def)
  have rate: "disinterest_rate context =
         (if acting (player context) = 0 \<or> acting (player context) = 1 then 6 / 10
          else if acting (player context) = 2 then 4 / 10
          else if acting (player context) = 3 then 2 / 10
          else if acting (player context) = 4 \<or> acting (player context) = 5 then 1 / 10
          else 4 / 10)
         * (if attraction_level (npc context) = ROMANTIC then 1 / 2 else 1)"
    unfolding disinterest_rate_def Let_def trigger_rate_table by simp
  have dom: "topic_in_domain topic0 context =
         (\<exists>t d. topic0 = Some t \<and> domain_active context = Some d \<and> t \<noteq> [] \<and> d \<noteq> []
            \<and> py_in (lower t) (lower d))"
    by (auto simp: topic_in_domain_def split: option.splits)
  have bg: "background_exemption context =
         (0 < bond (npc context)
          \<and> py_in ''explicitly acknowledged'' (background (npc context)))"
    by (simp add: background_exemption_def)
  show ?thesis using u check rate dom bg by blast
qed

lemma quarter_draw: "random_unit quarter_draws = Inr (1 / 4, quarter_draws)"
  by (simp add: random_unit_ok quarter_draws_def)

lemma actor_not_exempt:
  "\<not> topic_in_domain (Some ''weather'') actor_context" "\<not> background_exemption actor_context"
  by (simp_all add: topic_in_domain_def background_exemption_def actor_context_def
      sample_context_def start_interaction_def blank_npc_def)

text \<open>
  Claim C7 as stated fails at acting 6: the claim's ``5+'' row gives the rate 0.1, under which a
  draw of one quarter does not trigger; the code looks 6 up in a table that ends at 5, takes the
  default 0.4, and triggers.
\<close>

theorem check_disinterest_trigger_counterexample:
  "acting (player actor_context) = 6
   \<and> \<not> (1 / 4 < claimed_trigger_rate 6)
   \<and> result_of (random_unit quarter_draws) = Inr (1 / 4)
   \<and> result_of (check_disinterest_trigger (Some ''weather'') actor_context quarter_draws)
       = Inr (True, actor_context\<lparr> npc := (npc actor_context)\<lparr> disinterest_signals := 1 \<rparr> \<rparr>)"
proof -
  have a: "acting (player actor_context) = 6"
    by (simp add: actor_context_def actor_player_def)
  have r: "disinterest_rate actor_context = 4 / 10"
    by (simp add: disinterest_rate_def a dict_get_def trigger_rates_def)
       (simp add: actor_context_def sample_context_def start_interaction_def blank_npc_def)
  have s: "disinterest_signals (npc actor_context) = 0"
    by (simp add: actor_context_def sample_context_def start_interaction_def blank_npc_def)
  have c: "result_of (check_disinterest_trigger (Some ''weather'') actor_context quarter_draws)
       = Inr (True, actor_context\<lparr> npc := (npc actor_context)\<lparr> disinterest_signals := 1 \<rparr> \<rparr>)"
    using actor_not_exempt
    by (simp add: check_disinterest_trigger_def rng_bind_def quarter_draw r s ret_def result_of_def)
  have d: "\<not> (1 / 4 < claimed_trigger_rate 6)" by (simp add: claimed_trigger_rate_def)
  have e: "result_of (random_unit quarter_draws) = Inr (1 / 4)"
    by (simp add: quarter_draw result_of_def)
  show ?thesis using a c d e by blast
qed

section \<open>The state update raises\<close>

text \<open>
  What the two update steps would compute from a table entry: the adjusted battery change
  replaces the base change, and the bandwidth takes the approach cost at bond 0, the tiered
  change and the sting of a failed flirt; both are clamped.
\<close>

lemma apply_battery_rule:
  "social_battery (apply_battery npc0 player0 base_change) =
     max (- 50) (min 50 (social_battery player0 +
       (case type_modifiers npc0 of
          None \<Rightarrow> base_change
        | Some mods \<Rightarrow> py_int (real_of_int base_change * battery_drain_multiplier mods))))"
  by (simp add: apply_battery_def Let_def adjust_battery_drain_def split: option.splits)

lemma apply_bandwidth_rule:
  "emotional_bandwidth (apply_bandwidth npc0 choice0 success player0 change) =
     max 0 (min 100 (emotional_bandwidth player0
       + (if bond npc0 = 0 then approach_costs (attraction_level npc0) else 0)
       + change
       - (if is_flirt choice0 \<and> \<not> success then 5 else 0)))"
  by (simp add: apply_bandwidth_def Let_def)

text \<open>
  Claim C5 asks that every resolved outcome changes the battery by the table delta rescaled by
  the drain multiplier. The code does not get that far: each \<^verbatim>\<open>battery_changes\<close> dictionary
  has an entry with reversed bounds (\<^verbatim>\<open>random.randint(-3, -4)\<close>, \<^verbatim>\<open>randint(-4, -5)\<close>,
  \<^verbatim>\<open>randint(-5, -6)\<close>), so building it raises \<^verbatim>\<open>ValueError\<close> for every attraction level,
  and \<^verbatim>\<open>_apply_outcome\<close> raises before it changes anything.
\<close>

theorem battery_update_raises:
  "battery_changes attraction g = Inl ValueError
   \<and> apply_outcome outcome choice0 context success g' = Inl ValueError"
  by (simp add: battery_changes_raises apply_outcome_raises)

text \<open>
  Claim C6 asks for the bandwidth update of a resolved move. The \<^verbatim>\<open>bandwidth_changes\<close>
  dictionaries have the same reversed bounds (\<^verbatim>\<open>randint(-4, -5)\<close>, \<^verbatim>\<open>randint(-6, -7)\<close>,
  \<^verbatim>\<open>randint(-7, -8)\<close>) and raise for every attraction level; no call of
  \<^verbatim>\<open>resolve_choice\<close> returns, so no bandwidth update is ever made.
\<close>

theorem bandwidth_update_raises:
  "bandwidth_changes attraction g = Inl ValueError
   \<and> snd (resolve_choice service choice0 context g') = Inl ValueError"
  by (simp add: bandwidth_changes_raises resolve_choice_raises)

section \<open>The bounds of the NPC state\<close>

text \<open>\<^verbatim>\<open>apply_disinterest_consequence\<close> subtracts and does not clamp.\<close>

lemma apply_disinterest_consequence_rule:
  "receptiveness (npc (snd (apply_disinterest_consequence context))) =
     receptiveness (npc context)
       - (if disinterest_signals (npc context) = 1 then 1 / 4
          else if disinterest_signals (npc context) = 2 then 1 / 2 else 1)"
  "bond (npc (snd (apply_disinterest_consequence context))) =
     bond (npc context)
       - (if disinterest_signals (npc context) = 1 then 0
          else if disinterest_signals (npc context) = 2 then 1 / 4 else 1 / 2)"
  by (simp_all add: apply_disinterest_consequence_def Let_def)

text \<open>
  Claim C1 asks that bond and receptiveness stay within 0..10 after every mutation, the
  disinterest consequences included. For a freshly created NPC (bond 0) and the example
  character, two triggered disinterest checks, each followed by its consequence, leave the bond
  at minus one quarter.
\<close>

theorem disinterest_consequence_unclamped:
  "(case check_disinterest_trigger (Some ''weather'') sample_context (\<lambda>_. 0) of
      Inl e \<Rightarrow> False
    | Inr ((t1, c1), g1) \<Rightarrow>
        (case check_disinterest_trigger (Some ''weather'')
                (snd (apply_disinterest_consequence c1)) g1 of
           Inl e \<Rightarrow> False
         | Inr ((t2, c2), g2) \<Rightarrow>
             t1 \<and> t2 \<and> bond (npc sample_context) = 0
             \<and> bond (npc (snd (apply_disinterest_consequence c2))) = - (1 / 4)))"
  by (simp add: check_disinterest_trigger_def topic_in_domain_def background_exemption_def
      sample_context_def start_interaction_def blank_npc_def sample_player_def
      disinterest_rate_def dict_get_def trigger_rates_def rng_bind_def ret_def random_unit_ok
      apply_disinterest_consequence_def Let_def)

section \<open>Fields the engine never reads\<close>

lemma npc_with [simp]:
  "bond (npc (with_patience_and_boost p d context)) = bond (npc context)"
  "receptiveness (npc (with_patience_and_boost p d context)) = receptiveness (npc context)"
  "name (npc (with_patience_and_boost p d context)) = name (npc context)"
  "background (npc (with_patience_and_boost p d context)) = background (npc context)"
  "attraction_level (npc (with_patience_and_boost p d context)) = attraction_level (npc context)"
  "base_flirt_success (npc (with_patience_and_boost p d context)) = base_flirt_success (npc context)"
  "flirt_uses (npc (with_patience_and_boost p d context)) = flirt_uses (npc context)"
  "consecutive_positives (npc (with_patience_and_boost p d context))
     = consecutive_positives (npc context)"
  "failures_this_interaction (npc (with_patience_and_boost p d context))
     = failures_this_interaction (npc context)"
  "disinterest_signals (npc (with_patience_and_boost p d context))
     = disinterest_signals (npc context)"
  "player (with_patience_and_boost p d context) = player context"
  "momentum_bonus (with_patience_and_boost p d context) = momentum_bonus context"
  "domain_active (with_patience_and_boost p d context) = domain_active context"
  by (simp_all add: with_patience_and_boost_def)

lemma tolerance_with:
  "failure_tolerance (npc (with_patience_and_boost p d context)) = failure_tolerance (npc context)"
  by (simp add: failure_tolerance_def base_tolerance_def adjust_failure_tolerance_def
      with_patience_and_boost_def split: option.splits)

lemma flirt_with:
  "get_flirt_success_rate (npc (with_patience_and_boost p d context))
     = get_flirt_success_rate (npc context)"
  by (simp add: get_flirt_success_rate_def)

lemma battery_with:
  "apply_battery (npc (with_patience_and_boost p d context)) player0 change
     = apply_battery (npc context) player0 change"
  by (cases "type_modifiers (npc context)")
     (simp_all add: apply_battery_def adjust_battery_drain_def with_patience_and_boost_def)

lemma bandwidth_with:
  "apply_bandwidth (npc (with_patience_and_boost p d context)) choice0 success player0 change
     = apply_bandwidth (npc context) choice0 success player0 change"
  by (simp add: apply_bandwidth_def)

lemma with_commutes_signals:
  "(with_patience_and_boost p d context)\<lparr> npc := (npc (with_patience_and_boost p d context))
      \<lparr> disinterest_signals := n \<rparr> \<rparr>
   = with_patience_and_boost p d (context\<lparr> npc := (npc context)\<lparr> disinterest_signals := n \<rparr> \<rparr>)"
  by (simp add: with_patience_and_boost_def)

lemma check_with:
  "check_disinterest_trigger topic0 (with_patience_and_boost p d context) g =
     (case check_disinterest_trigger topic0 context g of
        Inl e \<Rightarrow> Inl e
      | Inr ((triggered, context'), g') \<Rightarrow>
          Inr ((triggered, with_patience_and_boost p d context'), g'))"
  by (simp add: check_disinterest_trigger_def topic_in_domain_def background_exemption_def
      disinterest_rate_def rng_bind_def ret_def random_unit_ok with_commutes_signals
      split: sum.splits prod.splits)

lemma consequence_with:
  "apply_disinterest_consequence (with_patience_and_boost p d context) =
     (case apply_disinterest_consequence context of
        (message, context') \<Rightarrow> (message, with_patience_and_boost p d context'))"
  by (simp add: apply_disinterest_consequence_def Let_def with_patience_and_boost_def)

lemma exit_with:
  "should_npc_exit (with_patience_and_boost p d context) = should_npc_exit context"
  by (simp add: should_npc_exit_def can_tolerate_failure_def tolerance_with)

lemma points_with:
  "domain_bonus_points choice0 (with_patience_and_boost p d context) g
     = domain_bonus_points choice0 context g"
  by (cases "topic choice0") (simp_all add: domain_bonus_points_def)

lemma rate_with:
  "success_rate_of choice0 (with_patience_and_boost p d context) g
     = success_rate_of choice0 context g"
  by (cases "domain_bonus_points choice0 context g")
     (auto simp: success_rate_of_def rng_bind_def points_with flirt_with)

lemma request_with:
  "npc_response_request choice0 (with_patience_and_boost p d context) success
     = npc_response_request choice0 context success"
  by (simp add: npc_response_request_def with_patience_and_boost_def)

lemma outcome_with:
  "determine_outcome choice0 success (with_patience_and_boost p d context) g
     = determine_outcome choice0 success context g"
  by (simp add: determine_outcome_def)


text \<open>
  Claim C10. Overwriting the patience multiplier and the domain boost of the NPC's modifier
  bundle with any two values changes nothing the engine computes: with the same draws, the
  success rate, the outcome classification, the battery and bandwidth steps, the state update,
  the whole resolution, the disinterest check and its consequence, and the exit decision give
  the same results, and every context they return differs from the original run's at most in
  those two fields. The resolution sends the same request to the text-generation service in
  both runs. (The state update and the resolution raise \<^verbatim>\<open>ValueError\<close> in both runs.)
\<close>

theorem patience_and_boost_unused:
  "success_rate_of choice0 (with_patience_and_boost p d context) g
     = success_rate_of choice0 context g
   \<and> determine_outcome choice0 success (with_patience_and_boost p d context) g
     = determine_outcome choice0 success context g
   \<and> apply_battery (npc (with_patience_and_boost p d context)) player0 change
     = apply_battery (npc context) player0 change
   \<and> apply_bandwidth (npc (with_patience_and_boost p d context)) choice0 success player0 change
     = apply_bandwidth (npc context) choice0 success player0 change
   \<and> apply_outcome outcome choice0 (with_patience_and_boost p d context) success g =
       (case apply_outcome outcome choice0 context success g of
          Inl e \<Rightarrow> Inl e
        | Inr (context', g') \<Rightarrow> Inr (with_patience_and_boost p d context', g'))
   \<and> resolve_choice service choice0 (with_patience_and_boost p d context) g =
       (case resolve_choice service choice0 context g of
          (requests, result) \<Rightarrow>
            (requests,
             case result of
               Inl e \<Rightarrow> Inl e
             | Inr ((succeeded, outcome', reply, context'), g') \<Rightarrow>
                 Inr ((succeeded, outcome', reply, with_patience_and_boost p d context'), g')))
   \<and> check_disinterest_trigger topic0 (with_patience_and_boost p d context) g =
       (case check_disinterest_trigger topic0 context g of
          Inl e \<Rightarrow> Inl e
        | Inr ((triggered, context'), g') \<Rightarrow>
            Inr ((triggered, with_patience_and_boost p d context'), g'))
   \<and> apply_disinterest_consequence (with_patience_and_boost p d context) =
       (case apply_disinterest_consequence context of
          (message, context') \<Rightarrow> (message, with_patience_and_boost p d context'))
   \<and> should_npc_exit (with_patience_and_boost p d context) = should_npc_exit context
   \<and> (type_modifiers (npc context) = Some mods \<longrightarrow>
        type_modifiers (npc (with_patience_and_boost p d context))
          = Some (mods\<lparr> conversation_patience := p, domain_boost := d \<rparr>))"
proof -
  have raise: "apply_outcome outcome choice0 (with_patience_and_boost p d context) success g =
       (case apply_outcome outcome choice0 context success g of
          Inl e \<Rightarrow> Inl e
        | Inr (context', g') \<Rightarrow> Inr (with_patience_and_boost p d context', g'))"
    by (simp add: apply_outcome_raises)
  have resolve: "resolve_choice service choice0 (with_patience_and_boost p d context) g =
       (case resolve_choice service choice0 context g of
          (requests, result) \<Rightarrow>
            (requests,
             case result of
               Inl e \<Rightarrow> Inl e
             | Inr ((succeeded, outcome', reply, context'), g') \<Rightarrow>
                 Inr ((succeeded, outcome', reply, with_patience_and_boost p d context'), g')))"
  proof -
    obtain boost g1 where "domain_bonus_points choice0 context g = Inr (boost, g1)"
      using domain_bonus_points_total by blast
    then obtain rate where rate: "success_rate_of choice0 context g = Inr (rate, g1)"
      using success_rate_of_rule by blast
    then have "success_rate_of choice0 (with_patience_and_boost p d context) g = Inr (rate, g1)"
      by (simp add: rate_with)
    then show ?thesis
      by (simp add: resolve_choice_rule rate request_with)
  qed
  have mods: "type_modifiers (npc context) = Some mods \<longrightarrow>
        type_modifiers (npc (with_patience_and_boost p d context))
          = Some (mods\<lparr> conversation_patience := p, domain_boost := d \<rparr>)"
    by (simp add: with_patience_and_boost_def)
  show ?thesis
    using rate_with [of choice0 p d "context" g] outcome_with [of choice0 success p d "context" g]
      battery_with [of p d "context" player0 change]
      bandwidth_with [of p d "context" choice0 success player0 change]
      raise resolve check_with [of topic0 p d "context" g] consequence_with [of p d "context"]
      exit_with [of p d "context"] mods
    by blast
qed

text \<open>
  The barista's bundle has patience 0.49; setting patience to 5 and domain boost to 7 changes
  the bundle and leaves the exit decision as it was.
\<close>

lemma barista_patience:
  "type_modifiers (npc barista_context) =
     Some (combine_modifiers (get_role_modifiers SERVICE_WORKER)
             (get_archetype_modifiers INTROVERT) working_modifiers)"
  by (simp add: barista_context_def start_interaction_def barista_def apply_modifiers_to_npc_def)

theorem patience_and_boost_unused_witness:
  "map_option conversation_patience (type_modifiers (npc barista_context)) = Some (49 / 100)
   \<and> map_option conversation_patience
       (type_modifiers (npc (with_patience_and_boost 5 7 barista_context))) = Some 5
   \<and> map_option domain_boost
       (type_modifiers (npc (with_patience_and_boost 5 7 barista_context))) = Some 7
   \<and> should_npc_exit (with_patience_and_boost 5 7 barista_context)
       = should_npc_exit barista_context"
  using patience_and_boost_unused
    [of sample_choice 5 7 barista_context "\<lambda>_. 0" True sample_player 0 POSITIVE "\<lambda>_. []" None
        "combine_modifiers (get_role_modifiers SERVICE_WORKER)
             (get_archetype_modifiers INTROVERT) working_modifiers"]
    barista_patience
  by (simp add: combine_modifiers_def working_modifiers_def default_modifiers_def)

end
